theory Spec2Isabelle
  imports Main "HOL-Library.Word" "HOL-Library.Char_ord" "HOL-Library.List_Lexorder"
begin

section \<open>Vectra Guard: the exec pipeline, the session ledger and the daemon queue\<close>

text \<open>
  A shallow embedding of \<^verbatim>\<open>cmd/exec.go\<close>, \<^verbatim>\<open>cmd/root.go\<close> (\<^verbatim>\<open>Execute\<close>),
  \<^verbatim>\<open>internal/session/session.go\<close> and \<^verbatim>\<open>internal/daemon/daemon.go\<close>.
  Go's \<^verbatim>\<open>int\<close> is a 64-bit two's complement integer on the platforms the tool is built
  for; it is modelled as \<open>64 word\<close>, so \<open>+\<close> wraps around as Go's does and \<open>sint\<close> reads the
  signed value. Everything the operating system, the clock, the user or the analyzer
  decides is an explicit input of the model.
\<close>

subsection \<open>Data model\<close>

type_synonym go_int = "64 word"

text \<open>\<^verbatim>\<open>time.Time\<close> and \<^verbatim>\<open>time.Duration\<close>: nanoseconds, as \<^verbatim>\<open>int64\<close>.\<close>

type_synonym go_time = "64 word"

text \<open>
  \<^verbatim>\<open>analyzer.Finding\<close>. The struct is declared in the analyzer package; these are the
  fields \<^verbatim>\<open>runExec\<close> and \<^verbatim>\<open>promptForApproval\<close> read. \<^verbatim>\<open>Severity\<close> is compared with
  string literals in the source, so it stays a string here.
\<close>

record finding =
  Code :: string
  Severity :: string
  Description :: string
  Recommendation :: string

text \<open>A value of type \<^verbatim>\<open>interface{}\<close> as \<^verbatim>\<open>encoding/json\<close> decodes it.\<close>

datatype json_value =
    JNull
  | JBool bool
  | JNumber int
  | JString string
  | JArray "json_value list"
  | JObject "(string \<times> json_value) list"

text \<open>\<^verbatim>\<open>session.Command\<close>. The fields \<^verbatim>\<open>Error\<close> and \<^verbatim>\<open>Metadata\<close> are \<open>ErrorText\<close> and
  \<open>CmdMetadata\<close> here, field names being global in a theory.\<close>

record command =
  Timestamp :: go_time
  Command :: string
  Args :: "string list"
  ExitCode :: go_int
  Output :: string
  ErrorText :: string
  Duration :: go_time
  RiskLevel :: string
  Approved :: bool
  ApprovedBy :: string
  Findings :: "string list"
  CmdMetadata :: "(string \<times> json_value) list"

text \<open>\<^verbatim>\<open>session.FileOperation\<close>; its \<^verbatim>\<open>Timestamp\<close> and \<^verbatim>\<open>RiskLevel\<close> are \<open>OpTimestamp\<close> and
  \<open>OpRiskLevel\<close> here.\<close>

record file_operation =
  OpTimestamp :: go_time
  Operation :: string
  Path :: string
  Size :: "64 word"
  OpRiskLevel :: string
  Allowed :: bool
  Reason :: string

text \<open>\<^verbatim>\<open>session.Session\<close>\<close>

record session =
  ID :: string
  AgentName :: string
  Workspace :: string
  StartTime :: go_time
  EndTime :: "go_time option"
  Commands :: "command list"
  FileOps :: "file_operation list"
  RiskScore :: go_int
  Violations :: go_int
  Metadata :: "(string \<times> json_value) list"

text \<open>\<^verbatim>\<open>session.Manager\<close>; its logger writes to the log of the world below.\<close>

record manager =
  sessionDir :: string

subsection \<open>The world: files, system calls issued, log\<close>

datatype log_level = LevelDebug | LevelInfo | LevelWarn | LevelError

text \<open>
  The file-system calls of package \<^verbatim>\<open>os\<close>. \<open>Rename\<close> is part of that interface; the
  session package never issues it.
\<close>

datatype fs_call =
    MkdirAll string
  | WriteFile string string
  | ReadFile string
  | Rename string string

text \<open>
  \<open>host_runs\<close> lists the commands handed to \<^verbatim>\<open>exec.Command(name, args...).Run()\<close>, which
  starts them as children of the supervisor, directly on the host; \<open>prompts\<close> lists the
  approval prompts written to the standard error stream, each with the risk level and
  the command it shows.
\<close>

record world =
  files :: "string \<Rightarrow> string option"
  calls :: "fs_call list"
  logged :: "(log_level \<times> string) list"
  host_runs :: "(string \<times> string list) list"
  prompts :: "(string \<times> string) list"

definition log_at :: "log_level \<Rightarrow> string \<Rightarrow> world \<Rightarrow> world" where
  "log_at lvl msg w = w\<lparr>logged := logged w @ [(lvl, msg)]\<rparr>"

text \<open>
  What the operating system does with one \<^verbatim>\<open>os.WriteFile(path, data, perm)\<close>. The call
  opens the file with \<^verbatim>\<open>O_WRONLY|O_CREATE|O_TRUNC\<close>, writes and closes: when the open
  fails nothing changes; once the open has succeeded the old content is gone, and a
  write that fails leaves the first \<open>n\<close> bytes of the new data.
\<close>

datatype write_outcome = WriteOk | OpenFails | WriteFailsAfter nat

definition os_WriteFile :: "write_outcome \<Rightarrow> string \<Rightarrow> string \<Rightarrow> world \<Rightarrow> bool \<times> world" where
  "os_WriteFile oc path data w =
     (let w1 = w\<lparr>calls := calls w @ [WriteFile path data]\<rparr> in
      case oc of
        WriteOk \<Rightarrow> (True, w1\<lparr>files := (files w1)(path \<mapsto> data)\<rparr>)
      | OpenFails \<Rightarrow> (False, w1)
      | WriteFailsAfter n \<Rightarrow> (False, w1\<lparr>files := (files w1)(path \<mapsto> take n data)\<rparr>))"

text \<open>
  The environment of one ledger operation: \<^verbatim>\<open>json.MarshalIndent\<close> (\<open>None\<close> when it
  returns an error) and the outcome of the write.
\<close>

record ledger_env =
  MarshalIndent :: "session \<Rightarrow> string option"
  write_result :: write_outcome

datatype ledger_error =
    CreateSessionDirectory
  | ReadSession
  | ParseSession
  | MarshalSession
  | WriteSession

text \<open>\<^verbatim>\<open>strings.Join\<close>\<close>

fun strings_Join :: "string list \<Rightarrow> string \<Rightarrow> string" where
  "strings_Join [] sep = []"
| "strings_Join [x] sep = x"
| "strings_Join (x # y # ys) sep = x @ sep @ strings_Join (y # ys) sep"

text \<open>
  \<^verbatim>\<open>filepath.Join\<close>: the elements that are not empty, joined with the separator. The
  cleaning of the result (\<^verbatim>\<open>filepath.Clean\<close>) is left out: it changes nothing on elements
  without separators and dots of their own.
\<close>

definition filepath_Join :: "string list \<Rightarrow> string" where
  "filepath_Join elems = strings_Join (filter (\<lambda>e. e \<noteq> []) elems) ''/''"

subsection \<open>The session ledger\<close>

text \<open>\<^verbatim>\<open>Manager.save\<close>\<close>

definition save :: "ledger_env \<Rightarrow> manager \<Rightarrow> session \<Rightarrow> world \<Rightarrow> ledger_error option \<times> world" where
  "save env m s w =
     (let path = filepath_Join [sessionDir m, ID s @ ''.json''] in
      case MarshalIndent env s of
        None \<Rightarrow> (Some MarshalSession, w)
      | Some data \<Rightarrow>
          (case os_WriteFile (write_result env) path data w of
             (True, w') \<Rightarrow> (None, w')
           | (False, w') \<Rightarrow> (Some WriteSession, w')))"

text \<open>
  \<^verbatim>\<open>Manager.AddCommand\<close>. The session is a pointer in the source: the update is made
  before \<^verbatim>\<open>save\<close> and stays whatever \<^verbatim>\<open>save\<close> returns.
\<close>

definition AddCommand ::
  "ledger_env \<Rightarrow> manager \<Rightarrow> session \<Rightarrow> command \<Rightarrow> world \<Rightarrow> ledger_error option \<times> session \<times> world" where
  "AddCommand env m s cmd w =
     (let s1 = s\<lparr>Commands := Commands s @ [cmd]\<rparr>;
          s2 = (if RiskLevel cmd = ''critical''
                  then s1\<lparr>RiskScore := RiskScore s1 + 100, Violations := Violations s1 + 1\<rparr>
                else if RiskLevel cmd = ''high''
                  then s1\<lparr>RiskScore := RiskScore s1 + 50, Violations := Violations s1 + 1\<rparr>
                else if RiskLevel cmd = ''medium''
                  then s1\<lparr>RiskScore := RiskScore s1 + 10\<rparr>
                else s1);
          (err, w') = save env m s2 w
      in (err, s2, w'))"

text \<open>\<^verbatim>\<open>Manager.AddFileOperation\<close>\<close>

definition AddFileOperation ::
  "ledger_env \<Rightarrow> manager \<Rightarrow> session \<Rightarrow> file_operation \<Rightarrow> world \<Rightarrow> ledger_error option \<times> session \<times> world" where
  "AddFileOperation env m s op w =
     (let s1 = s\<lparr>FileOps := FileOps s @ [op]\<rparr>;
          s2 = (if \<not> Allowed op
                  then s1\<lparr>Violations := Violations s1 + 1, RiskScore := RiskScore s1 + 25\<rparr>
                else s1);
          (err, w') = save env m s2 w
      in (err, s2, w'))"

text \<open>\<^verbatim>\<open>Manager.End\<close>; \<open>now\<close> is the reading of \<^verbatim>\<open>time.Now()\<close>.\<close>

definition End ::
  "ledger_env \<Rightarrow> manager \<Rightarrow> go_time \<Rightarrow> session \<Rightarrow> world \<Rightarrow> ledger_error option \<times> session \<times> world" where
  "End env m now s w =
     (let s1 = s\<lparr>EndTime := Some now\<rparr> in
      case save env m s1 w of
        (Some e, w') \<Rightarrow> (Some e, s1, w')
      | (None, w') \<Rightarrow> (None, s1, log_at LevelInfo ''session ended'' w'))"

text \<open>The three updates of a session the ledger offers, as one type.\<close>

datatype ledger_update =
    UAddCommand command
  | UAddFileOperation file_operation
  | UEnd go_time

fun apply_update ::
  "ledger_env \<Rightarrow> manager \<Rightarrow> session \<Rightarrow> ledger_update \<Rightarrow> world \<Rightarrow> ledger_error option \<times> session \<times> world" where
  "apply_update env m s (UAddCommand cmd) w = AddCommand env m s cmd w"
| "apply_update env m s (UAddFileOperation op) w = AddFileOperation env m s op w"
| "apply_update env m s (UEnd now) w = End env m now s w"

subsection \<open>The exec pipeline: risk level\<close>

text \<open>One iteration of the \<^verbatim>\<open>switch f.Severity\<close> in \<^verbatim>\<open>runExec\<close>.\<close>

definition bump_risk :: "string \<Rightarrow> string \<Rightarrow> string" where
  "bump_risk riskLevel sev =
     (if sev = ''critical'' then ''critical''
      else if sev = ''high'' then (if riskLevel \<noteq> ''critical'' then ''high'' else riskLevel)
      else if sev = ''medium''
        then (if riskLevel \<noteq> ''critical'' \<and> riskLevel \<noteq> ''high'' then ''medium'' else riskLevel)
      else riskLevel)"

text \<open>The loop over the findings: the state is \<open>(riskLevel, findingCodes)\<close>.\<close>

fun risk_loop :: "finding list \<Rightarrow> string \<times> string list \<Rightarrow> string \<times> string list" where
  "risk_loop [] acc = acc"
| "risk_loop (f # fs) (riskLevel, findingCodes) =
     risk_loop fs (bump_risk riskLevel (Severity f), findingCodes @ [Code f])"

definition assess :: "finding list \<Rightarrow> string \<times> string list" where
  "assess findings =
     (if length findings > 0 then risk_loop findings (''low'', []) else (''low'', []))"

text \<open>The order of the severity classes: low, medium, high, critical.\<close>

definition severity_rank :: "string \<Rightarrow> nat" where
  "severity_rank sev =
     (if sev = ''critical'' then 3 else if sev = ''high'' then 2
      else if sev = ''medium'' then 1 else 0)"

definition severities :: "string set" where
  "severities = {''low'', ''medium'', ''high'', ''critical''}"

definition session_after :: "ledger_error option \<times> session \<times> world \<Rightarrow> session" where
  "session_after r = fst (snd r)"

definition world_after :: "ledger_error option \<times> session \<times> world \<Rightarrow> world" where
  "world_after r = snd (snd r)"

definition session_path :: "manager \<Rightarrow> session \<Rightarrow> string" where
  "session_path m s = filepath_Join [sessionDir m, ID s @ ''.json'']"

text \<open>\<^verbatim>\<open>session.NewManager\<close>; \<open>mkdir_ok\<close> says whether \<^verbatim>\<open>os.MkdirAll\<close> succeeds.\<close>

definition NewManager :: "bool \<Rightarrow> string \<Rightarrow> world \<Rightarrow> (ledger_error + manager) \<times> world" where
  "NewManager mkdir_ok workspace w =
     (let dir = filepath_Join [workspace, ''.vectra-guard'', ''sessions''];
          w1 = w\<lparr>calls := calls w @ [MkdirAll dir]\<rparr>
      in if mkdir_ok then (Inr \<lparr>sessionDir = dir\<rparr>, w1) else (Inl CreateSessionDirectory, w1))"

text \<open>
  \<^verbatim>\<open>Manager.Load\<close>; \<open>unmarshal\<close> is \<^verbatim>\<open>json.Unmarshal\<close> into a \<^verbatim>\<open>Session\<close> (\<open>None\<close> when it
  returns an error). A file that cannot be read is a file that is not there.
\<close>

definition Load ::
  "(string \<Rightarrow> session option) \<Rightarrow> manager \<Rightarrow> string \<Rightarrow> world \<Rightarrow> (ledger_error + session) \<times> world" where
  "Load unmarshal m sessionID w =
     (let path = filepath_Join [sessionDir m, sessionID @ ''.json''];
          w1 = w\<lparr>calls := calls w @ [ReadFile path]\<rparr>
      in case files w path of
           None \<Rightarrow> (Inl ReadSession, w1)
         | Some data \<Rightarrow>
             (case unmarshal data of
                None \<Rightarrow> (Inl ParseSession, w1)
              | Some s \<Rightarrow> (Inr s, w1)))"

subsection \<open>Session identifiers\<close>

text \<open>The verb \<^verbatim>\<open>%d\<close> of \<^verbatim>\<open>fmt.Sprintf\<close> on an integer: decimal digits, a minus sign first
  when the number is negative.\<close>

definition digit_char :: "nat \<Rightarrow> char" where
  "digit_char d = char_of (48 + d)"

fun dec_digits :: "nat \<Rightarrow> string" where
  "dec_digits n =
     (if n < 10 then [digit_char n] else dec_digits (n div 10) @ [digit_char (n mod 10)])"

declare dec_digits.simps [simp del]

definition format_d :: "int \<Rightarrow> string" where
  "format_d i = (if i < 0 then CHR ''-'' # dec_digits (nat (- i)) else dec_digits (nat i))"

text \<open>
  What a process can tell about itself when it generates an identifier: the reading of
  \<^verbatim>\<open>time.Now().UnixNano()\<close> (an \<^verbatim>\<open>int64\<close>) and its process id.
\<close>

record process =
  UnixNano :: "64 word"
  Getpid :: nat

text \<open>\<^verbatim>\<open>generateSessionID\<close>: \<^verbatim>\<open>fmt.Sprintf("session-%d", time.Now().UnixNano())\<close>\<close>

definition generateSessionID :: "process \<Rightarrow> string" where
  "generateSessionID p = ''session-'' @ format_d (sint (UnixNano p))"

text \<open>The session \<^verbatim>\<open>Manager.Start\<close> makes; \<open>now\<close> is the second reading of the clock.\<close>

definition new_session :: "process \<Rightarrow> go_time \<Rightarrow> string \<Rightarrow> string \<Rightarrow> session" where
  "new_session proc now agentName workspace =
     \<lparr>ID = generateSessionID proc, AgentName = agentName, Workspace = workspace,
      StartTime = now, EndTime = None, Commands = [], FileOps = [], RiskScore = 0,
      Violations = 0, Metadata = []\<rparr>"

text \<open>\<^verbatim>\<open>Manager.Start\<close>\<close>

definition Start ::
  "ledger_env \<Rightarrow> manager \<Rightarrow> process \<Rightarrow> go_time \<Rightarrow> string \<Rightarrow> string \<Rightarrow> world \<Rightarrow>
   (ledger_error + session) \<times> world" where
  "Start env m proc now agentName workspace w =
     (let session = new_session proc now agentName workspace in
      case save env m session w of
        (Some e, w') \<Rightarrow> (Inl e, w')
      | (None, w') \<Rightarrow> (Inr session, log_at LevelInfo ''session started'' w'))"

text \<open>
  What one in-place write of the session \<open>s\<close> does to the world \<open>w\<close>, giving \<open>w'\<close> and the
  error \<open>err\<close>: one call, \<^verbatim>\<open>os.WriteFile\<close> on the session file, and the file as that call
  leaves it; no call at all when the session cannot be serialised.
\<close>

definition written_in_place ::
  "ledger_env \<Rightarrow> manager \<Rightarrow> session \<Rightarrow> ledger_error option \<Rightarrow> world \<Rightarrow> world \<Rightarrow> bool" where
  "written_in_place env m s err w w' =
     (let path = filepath_Join [sessionDir m, ID s @ ''.json'']
      in (\<forall>data. MarshalIndent env s = Some data \<longrightarrow>
            calls w' = calls w @ [WriteFile path data] \<and>
            (\<forall>p. p \<noteq> path \<longrightarrow> files w' p = files w p) \<and>
            (write_result env = WriteOk \<longrightarrow> err = None \<and> files w' path = Some data) \<and>
            (write_result env = OpenFails \<longrightarrow>
               err = Some WriteSession \<and> files w' path = files w path) \<and>
            (\<forall>n. write_result env = WriteFailsAfter n \<longrightarrow>
               err = Some WriteSession \<and> files w' path = Some (take n data))) \<and>
         (MarshalIndent env s = None \<longrightarrow>
            err = Some MarshalSession \<and> calls w' = calls w \<and> files w' = files w))"

subsection \<open>The exec pipeline\<close>

text \<open>
  \<^verbatim>\<open>config.Config\<close>, as far as the sources show it: \<^verbatim>\<open>runExec\<close> reads \<^verbatim>\<open>cfg.Policies\<close> and
  hands it to the analyzer; the fields of \<^verbatim>\<open>cfg.Sandbox\<close> are those the sandbox tests set.
\<close>

datatype SandboxMode = SandboxModeAuto | SandboxModeAlways | SandboxModeRisky | SandboxModeNever

record SandboxConfig =
  Enabled :: bool
  Mode :: SandboxMode
  EnableCache :: bool

record PolicyConfig =
  Allowlist :: "string list"
  Denylist :: "string list"

record Config =
  Policies :: PolicyConfig
  Sandbox :: SandboxConfig

text \<open>
  How a child that was started ended (\<^verbatim>\<open>os.ProcessState\<close>): it exited with a status of
  eight bits, or a signal killed it. \<^verbatim>\<open>ExitCode()\<close> is the status in the first case and
  \<open>-1\<close> in the second.
\<close>

datatype process_state = Exited "8 word" | Signaled

definition ProcessState_ExitCode :: "process_state \<Rightarrow> go_int" where
  "ProcessState_ExitCode st = (case st of Exited status \<Rightarrow> ucast status | Signaled \<Rightarrow> - 1)"

text \<open>What \<^verbatim>\<open>cmd.Run()\<close> returns: \<^verbatim>\<open>nil\<close> (the child exited with status 0), an
  \<^verbatim>\<open>*exec.ExitError\<close> with the state of the child, or another error (the command could not
  be started).\<close>

datatype run_outcome = RunNil | RunExitError process_state | RunOtherError string

text \<open>The errors \<^verbatim>\<open>runExec\<close> returns: an \<^verbatim>\<open>*exitError\<close> with message and code, or a plain
  error.\<close>

datatype exec_error = ExitError string go_int | PlainError string

text \<open>Everything outside the program that one run of \<^verbatim>\<open>runExec\<close> reads. \<open>Stdin\<close> is the
  line the user types at the prompt, without its newline (empty at the end of input).\<close>

record exec_env =
  AnalyzeScript :: "string \<Rightarrow> string \<Rightarrow> PolicyConfig \<Rightarrow> finding list"
  Stdin :: string
  Run :: run_outcome
  Now :: go_time
  Since :: go_time
  GetCurrentSession :: string
  Getwd :: string
  MkdirAll_ok :: bool
  Unmarshal :: "string \<Rightarrow> session option"
  ledger :: ledger_env

text \<open>\<^verbatim>\<open>strings.ToLower\<close> and \<^verbatim>\<open>strings.TrimSpace\<close> on the bytes of ASCII text.\<close>

definition lower_char :: "char \<Rightarrow> char" where
  "lower_char c =
     (if 65 \<le> (of_char c :: nat) \<and> (of_char c :: nat) \<le> 90 then char_of (of_char c + 32 :: nat)
      else c)"

definition ToLower :: "string \<Rightarrow> string" where
  "ToLower s = map lower_char s"

definition is_space :: "char \<Rightarrow> bool" where
  "is_space c = ((of_char c :: nat) \<in> {9, 10, 11, 12, 13, 32})"

definition TrimSpace :: "string \<Rightarrow> string" where
  "TrimSpace s = rev (dropWhile is_space (rev (dropWhile is_space s)))"

text \<open>
  \<^verbatim>\<open>fmt.Scanln(&response)\<close> on a line: it skips the leading white space and stores the
  first word, up to the next white space; what follows on the line is an error that
  \<^verbatim>\<open>promptForApproval\<close> does not look at. On an empty line nothing is stored.
\<close>

definition Scanln :: "string \<Rightarrow> string" where
  "Scanln line = takeWhile (\<lambda>c. \<not> is_space c) (dropWhile is_space line)"

text \<open>
  \<^verbatim>\<open>promptForApproval\<close>. It writes the prompt to the standard error stream, reads the
  first word of the answer with \<^verbatim>\<open>fmt.Scanln\<close> and approves on \<^verbatim>\<open>y\<close> or \<^verbatim>\<open>yes\<close>.
\<close>

definition promptForApproval ::
  "string \<Rightarrow> string \<Rightarrow> string \<Rightarrow> finding list \<Rightarrow> world \<Rightarrow> bool \<times> world" where
  "promptForApproval line riskLevel cmdString findings w =
     (let w1 = w\<lparr>prompts := prompts w @ [(riskLevel, cmdString)]\<rparr>;
          response = Scanln line;
          r = ToLower (TrimSpace response)
      in (r = ''y'' \<or> r = ''yes'', w1))"

text \<open>The first loop over the findings has no effect but \<open>assess\<close>; the second logs each.\<close>

fun warn_findings :: "finding list \<Rightarrow> world \<Rightarrow> world" where
  "warn_findings [] w = w"
| "warn_findings (f # fs) w = warn_findings fs (log_at LevelWarn ''command risk detected'' w)"

text \<open>Lines 66 to 79 of \<^verbatim>\<open>runExec\<close>: the interactive approval and the block of critical
  commands. \<open>Some\<close> is the error \<^verbatim>\<open>runExec\<close> returns there.\<close>

definition approval ::
  "exec_env \<Rightarrow> bool \<Rightarrow> string \<Rightarrow> string \<Rightarrow> finding list \<Rightarrow> world \<Rightarrow> exec_error option \<times> world" where
  "approval env interactive riskLevel cmdString findings w =
     (if interactive then
        (case promptForApproval (Stdin env) riskLevel cmdString findings w of
           (False, w1) \<Rightarrow>
             (Some (ExitError ''execution denied'' 3),
              log_at LevelInfo ''command execution denied by user'' w1)
         | (True, w1) \<Rightarrow> (None, w1))
      else if riskLevel = ''critical'' then
        (Some (ExitError ''critical command blocked (use --interactive to approve)'' 3),
         log_at LevelError ''critical command blocked'' w)
      else (None, w))"

text \<open>Lines 105 to 129: the record of the command in the session, every error dropped.\<close>

definition trackInSession :: "exec_env \<Rightarrow> string \<Rightarrow> command \<Rightarrow> world \<Rightarrow> world" where
  "trackInSession env sessionID cmdRecord w =
     (if sessionID \<noteq> [] \<or> GetCurrentSession env \<noteq> [] then
        (let sid = (if sessionID = [] then GetCurrentSession env else sessionID) in
         case NewManager (MkdirAll_ok env) (Getwd env) w of
           (Inl e, w1) \<Rightarrow> w1
         | (Inr mgr, w1) \<Rightarrow>
             (case Load (Unmarshal env) mgr sid w1 of
                (Inl e, w2) \<Rightarrow> w2
              | (Inr sess, w2) \<Rightarrow> world_after (AddCommand (ledger env) mgr sess cmdRecord w2)))
      else w)"

text \<open>\<^verbatim>\<open>runExec\<close>\<close>

definition runExec ::
  "exec_env \<Rightarrow> Config \<Rightarrow> string list \<Rightarrow> bool \<Rightarrow> string \<Rightarrow> world \<Rightarrow> exec_error option \<times> world" where
  "runExec env cfg cmdArgs interactive sessionID w =
     (case cmdArgs of
        [] \<Rightarrow> (Some (PlainError ''no command specified''), w)
      | cmdName # args \<Rightarrow>
          (let cmdString = strings_Join cmdArgs '' '';
               findings = AnalyzeScript env ''inline-command'' cmdString (Policies cfg);
               (riskLevel, findingCodes) = assess findings;
               (denied, w2) =
                 (if length findings > 0
                  then approval env interactive riskLevel cmdString findings
                         (warn_findings findings w)
                  else (None, w))
           in case denied of
                Some e \<Rightarrow> (Some e, w2)
              | None \<Rightarrow>
                  (let w3 = w2\<lparr>host_runs := host_runs w2 @ [(cmdName, args)]\<rparr> in
                   case Run env of
                     RunOtherError msg \<Rightarrow>
                       (Some (PlainError (''execute command: '' @ msg)),
                        log_at LevelError ''command execution failed'' w3)
                   | outcome \<Rightarrow>
                       (let exitCode =
                              (case outcome of
                                 RunExitError st \<Rightarrow> ProcessState_ExitCode st
                               | _ \<Rightarrow> 0);
                            cmdRecord =
                              \<lparr>Timestamp = Now env, Command = cmdName, Args = args,
                               ExitCode = exitCode, Output = [], ErrorText = [],
                               Duration = Since env, RiskLevel = riskLevel,
                               Approved = (interactive \<or> riskLevel = ''low''),
                               ApprovedBy = [], Findings = findingCodes, CmdMetadata = []\<rparr>;
                            w4 = trackInSession env sessionID cmdRecord w3;
                            w5 = log_at LevelInfo ''command executed'' w4
                        in if exitCode \<noteq> 0
                           then (Some (ExitError (''command exited with code '' @
                                   format_d (sint exitCode)) exitCode), w5)
                           else (None, w5)))))"

text \<open>
  \<^verbatim>\<open>os.Exit(code)\<close>: the exit status of the process, as its parent reads it on Linux and
  macOS, is the low eight bits of \<open>code\<close>.
\<close>

definition os_Exit :: "go_int \<Rightarrow> 8 word" where
  "os_Exit code = ucast code"

text \<open>
  \<^verbatim>\<open>Execute\<close> of \<^verbatim>\<open>cmd/root.go\<close>: the exit status of the supervisor for the error the
  subcommand returned. \<^verbatim>\<open>os.Exit(code)\<close> is called for an error, with the code of an
  \<^verbatim>\<open>exitError\<close> and with 1 for any other; with no error the process ends with status 0.
\<close>

definition Execute :: "exec_error option \<Rightarrow> 8 word" where
  "Execute err =
     (case err of
        None \<Rightarrow> 0
      | Some (ExitError msg code) \<Rightarrow> os_Exit code
      | Some (PlainError msg) \<Rightarrow> os_Exit 1)"

text \<open>The finding codes the specification calls mandatory sandbox codes.\<close>

definition MandatorySandboxCodes :: "string set" where
  "MandatorySandboxCodes =
     {''DANGEROUS_DELETE_ROOT'', ''DANGEROUS_DELETE_HOME'', ''FORK_BOMB'', ''DEVICE_WRITE'',
      ''SENSITIVE_ENV_ACCESS'', ''DOTENV_FILE_READ'', ''POLICY_DENYLIST''}"

definition has_mandatory_code :: "finding list \<Rightarrow> bool" where
  "has_mandatory_code findings = (\<exists>f\<in>set findings. Code f \<in> MandatorySandboxCodes)"

text \<open>Whether the line typed at the prompt approves the command.\<close>

definition approves :: "string \<Rightarrow> bool" where
  "approves line =
     (ToLower (TrimSpace (Scanln line)) = ''y'' \<or> ToLower (TrimSpace (Scanln line)) = ''yes'')"

text \<open>The findings \<^verbatim>\<open>runExec\<close> gets from the analyzer for a command vector.\<close>

definition findings_of :: "exec_env \<Rightarrow> Config \<Rightarrow> string list \<Rightarrow> finding list" where
  "findings_of env cfg cmdArgs =
     AnalyzeScript env ''inline-command'' (strings_Join cmdArgs '' '') (Policies cfg)"

text \<open>
  When lines 66 to 79 return an error: there is a finding, and either the run is
  interactive and the answer does not approve, or it is not interactive and the risk
  level is critical.
\<close>

definition refused :: "exec_env \<Rightarrow> bool \<Rightarrow> finding list \<Rightarrow> bool" where
  "refused env interactive findings =
     (findings \<noteq> [] \<and>
      (if interactive then \<not> approves (Stdin env) else fst (assess findings) = ''critical''))"

text \<open>The exit code of the child as \<^verbatim>\<open>runExec\<close> reads it from what \<^verbatim>\<open>cmd.Run()\<close> returned.\<close>

definition child_code :: "run_outcome \<Rightarrow> go_int" where
  "child_code outcome =
     (case outcome of RunExitError st \<Rightarrow> ProcessState_ExitCode st | _ \<Rightarrow> 0)"

subsection \<open>The daemon's approval queue\<close>

text \<open>
  \<^verbatim>\<open>daemon.Command\<close>. \<open>ApprovedCh\<close> names the reply channel \<^verbatim>\<open>Approved chan bool\<close>
  the submitter made for the request; \<^verbatim>\<open>Args\<close> and \<^verbatim>\<open>Timestamp\<close> are \<open>CmdArgs\<close> and
  \<open>CmdTimestamp\<close> here.
\<close>

record daemon_command =
  Cmd :: string
  CmdArgs :: "string list"
  CmdTimestamp :: go_time
  PID :: go_int
  PPID :: go_int
  UID :: go_int
  ApprovedCh :: nat

text \<open>What the submitting process reads for one request: the clock and its ids.\<close>

record caller =
  CallTime :: go_time
  CallPID :: go_int
  CallPPID :: go_int
  CallUID :: go_int

text \<open>How a call of \<^verbatim>\<open>InterceptCommand\<close> returned: at once because no session is set, with
  the value received on the reply channel, or from the branch of the timer.\<close>

datatype return_via = NoSession | ViaReply | ViaTimeout

text \<open>
  The state of the daemon that the queue touches. \<open>interceptCh\<close> is the buffer of the
  channel of capacity 100; \<open>replies\<close> gives the buffer of each reply channel (capacity 1);
  \<open>waiting\<close> lists the reply channels of the submitters that stand in the \<^verbatim>\<open>select\<close> of
  \<^verbatim>\<open>InterceptCommand\<close>; \<open>returned\<close> lists the calls that returned, with the value and the
  way; \<open>processing\<close> holds while the goroutine \<^verbatim>\<open>processCommands\<close> has not returned.
\<close>

record daemon =
  session_set :: bool
  interceptCh :: "daemon_command list"
  replies :: "nat \<Rightarrow> bool list"
  next_chan :: nat
  waiting :: "nat list"
  returned :: "(nat option \<times> bool \<times> return_via) list"
  processing :: bool
  dlogged :: "(log_level \<times> string) list"

text \<open>
  The events the scheduler, the timer and the callers choose among:
  \<^verbatim>\<open>Start\<close> sets \<^verbatim>\<open>d.session\<close>; \<^verbatim>\<open>Start\<close> starts the goroutine \<^verbatim>\<open>processCommands\<close>;
  a caller of \<^verbatim>\<open>InterceptCommand\<close> passes the session check and its send on
  \<^verbatim>\<open>interceptCh\<close> completes (or it returns at once, no session being set);
  \<^verbatim>\<open>processCommands\<close> receives one command and handles it; the \<^verbatim>\<open>select\<close> of a waiting
  submitter takes the reply; it takes the timer; \<^verbatim>\<open>processCommands\<close> returns
  (\<^verbatim>\<open>ctx.Done()\<close> or \<^verbatim>\<open>stopCh\<close>).
\<close>

datatype event =
    SetSession
  | GoProcess
  | Intercept string "string list" caller
  | Process
  | ReplyTaken nat
  | TimerTaken nat
  | Stop

fun step :: "event \<Rightarrow> daemon \<Rightarrow> daemon" where
  "step SetSession d = d\<lparr>session_set := True\<rparr>"
| "step GoProcess d = d\<lparr>processing := True\<rparr>"
| "step (Intercept cmd args who) d =
     (if \<not> session_set d then d\<lparr>returned := returned d @ [(None, True, NoSession)]\<rparr>
      else if length (interceptCh d) < 100 then
        (let approved = next_chan d in
         d\<lparr>next_chan := approved + 1,
           replies := (replies d)(approved := []),
           interceptCh := interceptCh d @
             [\<lparr>Cmd = cmd, CmdArgs = args, CmdTimestamp = CallTime who, PID = CallPID who,
               PPID = CallPPID who, UID = CallUID who, ApprovedCh = approved\<rparr>],
           waiting := waiting d @ [approved]\<rparr>)
      else d)"
| "step Process d =
     (if processing d then
        (case interceptCh d of
           [] \<Rightarrow> d
         | cmd # rest \<Rightarrow>
             (let d1 = d\<lparr>interceptCh := rest,
                        dlogged := dlogged d @ [(LevelDebug, ''command intercepted'')]\<rparr>
              in if length (replies d1 (ApprovedCh cmd)) < 1
                 then d1\<lparr>replies := (replies d1)(ApprovedCh cmd := replies d1 (ApprovedCh cmd) @ [True])\<rparr>
                 else d1))
      else d)"
| "step (ReplyTaken c) d =
     (if c \<in> set (waiting d) then
        (case replies d c of
           [] \<Rightarrow> d
         | result # rest \<Rightarrow>
             d\<lparr>replies := (replies d)(c := rest),
               waiting := removeAll c (waiting d),
               returned := returned d @ [(Some c, result, ViaReply)]\<rparr>)
      else d)"
| "step (TimerTaken c) d =
     (if c \<in> set (waiting d) then
        d\<lparr>waiting := removeAll c (waiting d),
          returned := returned d @ [(Some c, False, ViaTimeout)],
          dlogged := dlogged d @ [(LevelWarn, ''command approval timeout'')]\<rparr>
      else d)"
| "step Stop d = d\<lparr>processing := False\<rparr>"

text \<open>A schedule is a list of events, run from left to right.\<close>

fun run_schedule :: "event list \<Rightarrow> daemon \<Rightarrow> daemon" where
  "run_schedule [] d = d"
| "run_schedule (e # es) d = run_schedule es (step e d)"

text \<open>The daemon as \<^verbatim>\<open>New\<close> makes it: no session, empty channels, no goroutine.\<close>

definition New :: daemon where
  "New =
     \<lparr>session_set = False, interceptCh = [], replies = (\<lambda>c. []), next_chan = 0,
      waiting = [], returned = [], processing = False, dlogged = []\<rparr>"

text \<open>
  The invariant of the queue: reply channels hold nothing but \<open>True\<close>; a call returned
  \<open>False\<close> exactly when it returned from the timer; every queued command has a reply
  channel of its own that is still empty.
\<close>

definition queue_inv :: "daemon \<Rightarrow> bool" where
  "queue_inv d =
     ((\<forall>c. set (replies d c) \<subseteq> {True}) \<and>
      (\<forall>r\<in>set (returned d). fst (snd r) = (snd (snd r) \<noteq> ViaTimeout)) \<and>
      (\<forall>cmd\<in>set (interceptCh d).
         ApprovedCh cmd < next_chan d \<and> replies d (ApprovedCh cmd) = []) \<and>
      distinct (map ApprovedCh (interceptCh d)))"

subsection \<open>Concrete inputs\<close>

definition example_manager :: manager where
  "example_manager = \<lparr>sessionDir = ''/w/.vectra-guard/sessions''\<rparr>"

definition example_session :: session where
  "example_session =
     \<lparr>ID = ''session-7'', AgentName = ''agent'', Workspace = ''/w'', StartTime = 7,
      EndTime = None, Commands = [], FileOps = [], RiskScore = 0, Violations = 0,
      Metadata = []\<rparr>"

definition example_command :: "string \<Rightarrow> command" where
  "example_command level =
     \<lparr>Timestamp = 8, Command = ''rm'', Args = [''-r'', ''/tmp/x''], ExitCode = 0,
      Output = [], ErrorText = [], Duration = 1, RiskLevel = level, Approved = False,
      ApprovedBy = [], Findings = [], CmdMetadata = []\<rparr>"

definition example_file_operation :: "bool \<Rightarrow> file_operation" where
  "example_file_operation allowed =
     \<lparr>OpTimestamp = 9, Operation = ''delete'', Path = ''/w/a'', Size = 0,
      OpRiskLevel = ''high'', Allowed = allowed, Reason = []\<rparr>"

text \<open>A stand-in for the JSON text of a session: its id and one mark per command.\<close>

definition example_marshal :: "session \<Rightarrow> string option" where
  "example_marshal s = Some (ID s @ replicate (length (Commands s)) (CHR ''c''))"

definition example_env :: "write_outcome \<Rightarrow> ledger_env" where
  "example_env oc = \<lparr>MarshalIndent = example_marshal, write_result = oc\<rparr>"

definition empty_world :: world where
  "empty_world = \<lparr>files = (\<lambda>p. None), calls = [], logged = [], host_runs = [], prompts = []\<rparr>"

text \<open>The world after the example session was persisted once.\<close>

definition persisted_world :: world where
  "persisted_world =
     snd (save (example_env WriteOk) example_manager example_session empty_world)"

definition example_findings :: "finding list" where
  "example_findings =
     [\<lparr>Code = ''SUDO_UNRESTRICTED'', Severity = ''medium'', Description = [], Recommendation = []\<rparr>,
      \<lparr>Code = ''DANGEROUS_DELETE_ROOT'', Severity = ''critical'', Description = [],
        Recommendation = []\<rparr>,
      \<lparr>Code = ''PIPE_TO_SHELL'', Severity = ''high'', Description = [], Recommendation = []\<rparr>]"

definition example_unmarshal :: "string \<Rightarrow> session option" where
  "example_unmarshal data = (if data = ''session-7'' then Some example_session else None)"

definition example_config :: "bool \<Rightarrow> Config" where
  "example_config enabled =
     \<lparr>Policies = \<lparr>Allowlist = [], Denylist = []\<rparr>,
      Sandbox = \<lparr>Enabled = enabled, Mode = SandboxModeAuto, EnableCache = False\<rparr>\<rparr>"

text \<open>An environment whose analyzer returns the given findings, whose user gives the
  given answer, whose child ends as given and whose ledger write ends as given.\<close>

definition example_exec_env ::
  "finding list \<Rightarrow> string \<Rightarrow> run_outcome \<Rightarrow> write_outcome \<Rightarrow> exec_env" where
  "example_exec_env fs answer outcome oc =
     \<lparr>AnalyzeScript = (\<lambda>name src policies. fs), Stdin = answer, Run = outcome, Now = 8,
      Since = 1, GetCurrentSession = [], Getwd = ''/w'', MkdirAll_ok = True,
      Unmarshal = example_unmarshal, ledger = example_env oc\<rparr>"

definition delete_root_finding :: finding where
  "delete_root_finding =
     \<lparr>Code = ''DANGEROUS_DELETE_ROOT'', Severity = ''critical'', Description = [],
      Recommendation = []\<rparr>"

definition dotenv_finding :: finding where
  "dotenv_finding =
     \<lparr>Code = ''DOTENV_FILE_READ'', Severity = ''high'', Description = [], Recommendation = []\<rparr>"

definition allowlist_finding :: finding where
  "allowlist_finding =
     \<lparr>Code = ''POLICY_ALLOWLIST'', Severity = ''low'', Description = [], Recommendation = []\<rparr>"

definition example_caller :: caller where
  "example_caller = \<lparr>CallTime = 1, CallPID = 20, CallPPID = 10, CallUID = 0\<rparr>"

text \<open>Two requests: the first is processed and its reply taken, the second times out.\<close>

definition example_schedule :: "event list" where
  "example_schedule =
     [SetSession, GoProcess, Intercept ''ls'' [] example_caller, Process, ReplyTaken 0,
      Intercept ''rm'' [''-rf'', ''/''] example_caller, TimerTaken 1, Process]"

text \<open>The same schedule followed by a third request, which is left in the queue.\<close>

definition example_pending_schedule :: "event list" where
  "example_pending_schedule = example_schedule @ [Intercept ''cat'' [''.env''] example_caller]"

section \<open>Properties\<close>

subsection \<open>Risk level\<close>

lemma bump_risk_rank:
  "r \<in> severities \<Longrightarrow> sev \<in> severities \<Longrightarrow>
   bump_risk r sev \<in> severities \<and>
   severity_rank (bump_risk r sev) = max (severity_rank r) (severity_rank sev) \<and>
   (bump_risk r sev = r \<or> bump_risk r sev = sev)"
  by (auto simp: bump_risk_def severities_def severity_rank_def)

lemma risk_loop_max:
  "r \<in> severities \<Longrightarrow> \<forall>f\<in>set fs. Severity f \<in> severities \<Longrightarrow>
   fst (risk_loop fs (r, cs)) \<in> severities \<and>
   severity_rank r \<le> severity_rank (fst (risk_loop fs (r, cs))) \<and>
   (\<forall>f\<in>set fs. severity_rank (Severity f) \<le> severity_rank (fst (risk_loop fs (r, cs)))) \<and>
   (fst (risk_loop fs (r, cs)) = r \<or> fst (risk_loop fs (r, cs)) \<in> Severity ` set fs)"
proof (induction fs arbitrary: r cs)
  case Nil
  then show ?case by simp
next
  case (Cons f fs)
  let ?r = "bump_risk r (Severity f)"
  from Cons.prems have sf: "Severity f \<in> severities" by simp
  from bump_risk_rank [OF Cons.prems(1) sf]
  have b: "?r \<in> severities"
    "severity_rank ?r = max (severity_rank r) (severity_rank (Severity f))"
    "?r = r \<or> ?r = Severity f" by blast+
  from Cons.prems have rest: "\<forall>g\<in>set fs. Severity g \<in> severities" by simp
  note ih = Cons.IH [OF b(1) rest, of "cs @ [Code f]"]
  show ?case using ih b(2) b(3) by auto
qed

lemma risk_loop_codes:
  "snd (risk_loop fs (r, cs)) = cs @ map Code fs"
  by (induction fs arbitrary: r cs) auto

text \<open>
  Claim C5. The risk level \<^verbatim>\<open>runExec\<close> computes is one of the four severity classes,
  is at least the severity of every finding, is the severity of one of the findings when
  there is any (so it is their maximum), and is \<open>low\<close> when there is none. The findings'
  severities are those of the data model: low, medium, high, critical.
\<close>

theorem riskLevel_is_max_severity:
  assumes "\<forall>f\<in>set findings. Severity f \<in> severities"
  shows "fst (assess findings) \<in> severities \<and>
         (\<forall>f\<in>set findings. severity_rank (Severity f) \<le> severity_rank (fst (assess findings))) \<and>
         (findings \<noteq> [] \<longrightarrow> fst (assess findings) \<in> Severity ` set findings) \<and>
         (findings = [] \<longrightarrow> fst (assess findings) = ''low'') \<and>
         severity_rank (fst (assess findings)) =
           Max (insert 0 (severity_rank ` Severity ` set findings))"
proof -
  have low: "''low'' \<in> severities" by (simp add: severities_def)
  let ?r = "fst (assess findings)"
  have eq: "?r = fst (risk_loop findings (''low'', []))"
    by (cases findings) (simp_all add: assess_def)
  note m = risk_loop_max [OF low assms, of "[]", folded eq]
  have attained: "findings \<noteq> [] \<longrightarrow> ?r \<in> Severity ` set findings"
  proof
    assume ne: "findings \<noteq> []"
    from m have "?r = ''low'' \<or> ?r \<in> Severity ` set findings" by blast
    moreover
    { assume l: "?r = ''low''"
      from ne obtain f where f: "f \<in> set findings" by (cases findings) auto
      with m have "severity_rank (Severity f) \<le> severity_rank ?r" by blast
      with l have "severity_rank (Severity f) = 0" by (simp add: severity_rank_def)
      moreover from assms f have "Severity f \<in> severities" by blast
      ultimately have "Severity f = ''low''"
        by (auto simp: severities_def severity_rank_def split: if_splits)
      with l f have "?r \<in> Severity ` set findings" by force }
    ultimately show "?r \<in> Severity ` set findings" by blast
  qed
  have empty: "findings = [] \<longrightarrow> ?r = ''low''" by (simp add: assess_def)
  have mx: "severity_rank ?r = Max (insert 0 (severity_rank ` Severity ` set findings))"
  proof (rule sym, rule Max_eqI)
    show "finite (insert 0 (severity_rank ` Severity ` set findings))" by simp
  next
    fix y assume "y \<in> insert 0 (severity_rank ` Severity ` set findings)"
    with m show "y \<le> severity_rank ?r" by auto
  next
    show "severity_rank ?r \<in> insert 0 (severity_rank ` Severity ` set findings)"
    proof (cases "findings = []")
      case True
      then show ?thesis by (simp add: assess_def severity_rank_def)
    next
      case False
      with attained show ?thesis by blast
    qed
  qed
  from m attained empty mx show ?thesis by blast
qed

text \<open>The witness of claim C5: three findings, the second critical.\<close>

theorem riskLevel_is_max_severity_witness:
  "Severity ` set example_findings \<subseteq> severities \<and>
   fst (assess example_findings) = ''critical'' \<and>
   severity_rank (fst (assess example_findings)) = 3"
  using riskLevel_is_max_severity [of example_findings]
  by (simp add: example_findings_def assess_def bump_risk_def severities_def severity_rank_def)

subsection \<open>The session ledger: increments\<close>

lemma sint_add_no_overflow:
  fixes a k :: "64 word"
  assumes "0 \<le> sint k" "sint a + sint k < 2 ^ 63"
  shows "sint (a + k) = sint a + sint k"
proof -
  have lo: "- (2 ^ 63) \<le> sint a" using sint_ge [of a] by simp
  have "sint (a + k) = signed_take_bit 63 (sint a + sint k)"
    by (simp add: sint_word_add)
  also have "\<dots> = sint a + sint k"
    using lo assms by (intro signed_take_bit_int_eq_self) auto
  finally show ?thesis .
qed

lemma AddCommand_session:
  "session_after (AddCommand env m s cmd w) =
     (if RiskLevel cmd = ''critical''
        then s\<lparr>Commands := Commands s @ [cmd], RiskScore := RiskScore s + 100,
               Violations := Violations s + 1\<rparr>
      else if RiskLevel cmd = ''high''
        then s\<lparr>Commands := Commands s @ [cmd], RiskScore := RiskScore s + 50,
               Violations := Violations s + 1\<rparr>
      else if RiskLevel cmd = ''medium''
        then s\<lparr>Commands := Commands s @ [cmd], RiskScore := RiskScore s + 10\<rparr>
      else s\<lparr>Commands := Commands s @ [cmd]\<rparr>)"
  by (simp add: AddCommand_def session_after_def Let_def split: prod.splits)

lemma AddFileOperation_session:
  "session_after (AddFileOperation env m s op w) =
     (if \<not> Allowed op
        then s\<lparr>FileOps := FileOps s @ [op], Violations := Violations s + 1,
               RiskScore := RiskScore s + 25\<rparr>
      else s\<lparr>FileOps := FileOps s @ [op]\<rparr>)"
  by (simp add: AddFileOperation_def session_after_def Let_def split: prod.splits)

lemma End_session:
  "session_after (End env m now s w) = s\<lparr>EndTime := Some now\<rparr>"
  by (simp add: End_def session_after_def Let_def split: prod.splits option.splits)

text \<open>
  Claim C6 as stated fails where Go's \<^verbatim>\<open>int\<close> wraps around: for a session whose risk
  score is the largest \<^verbatim>\<open>int\<close>, the score after a critical command is not the score
  before it plus 100.
\<close>

theorem increment_wraps_counterexample:
  "\<not> sint (RiskScore (session_after (AddCommand (example_env WriteOk) example_manager
          (example_session\<lparr>RiskScore := 9223372036854775807\<rparr>)
          (example_command ''critical'') empty_world))) =
     sint (RiskScore (example_session\<lparr>RiskScore := 9223372036854775807\<rparr>)) + 100"
  by (simp add: AddCommand_session example_command_def)

text \<open>
  Claim C6, amended. For every session whose risk score is at most the largest \<^verbatim>\<open>int\<close>
  less 100 and whose violation count is below the largest \<^verbatim>\<open>int\<close>, so that no sum wraps
  around: \<^verbatim>\<open>AddCommand\<close> adds 100 to the risk score and 1 to the violations for a critical
  command, 50 and 1 for a high one, 10 and nothing for a medium one;
  \<^verbatim>\<open>AddFileOperation\<close> adds 1 to the violations and 25 to the risk score when the
  operation is not allowed. For every session, a low command and an allowed operation
  change neither. All of it holds whatever \<^verbatim>\<open>save\<close> returns.
\<close>

theorem ledger_increments:
  "(let s' = session_after (AddCommand env m s cmd w) in
      (sint (RiskScore s) < 2 ^ 63 - 100 \<and> sint (Violations s) < 2 ^ 63 - 1 \<longrightarrow>
         (RiskLevel cmd = ''critical'' \<longrightarrow>
            sint (RiskScore s') = sint (RiskScore s) + 100 \<and>
            sint (Violations s') = sint (Violations s) + 1) \<and>
         (RiskLevel cmd = ''high'' \<longrightarrow>
            sint (RiskScore s') = sint (RiskScore s) + 50 \<and>
            sint (Violations s') = sint (Violations s) + 1) \<and>
         (RiskLevel cmd = ''medium'' \<longrightarrow>
            sint (RiskScore s') = sint (RiskScore s) + 10 \<and>
            sint (Violations s') = sint (Violations s))) \<and>
      (RiskLevel cmd = ''low'' \<longrightarrow>
         RiskScore s' = RiskScore s \<and> Violations s' = Violations s)) \<and>
   (let s' = session_after (AddFileOperation env m s op w) in
      (sint (RiskScore s) < 2 ^ 63 - 100 \<and> sint (Violations s) < 2 ^ 63 - 1 \<longrightarrow>
         (\<not> Allowed op \<longrightarrow>
            sint (Violations s') = sint (Violations s) + 1 \<and>
            sint (RiskScore s') = sint (RiskScore s) + 25)) \<and>
      (Allowed op \<longrightarrow>
         Violations s' = Violations s \<and> RiskScore s' = RiskScore s))"
proof -
  have r: "sint (RiskScore s + k) = sint (RiskScore s) + sint k"
    if "sint (RiskScore s) < 2 ^ 63 - 100" "0 \<le> sint k" "sint k \<le> 100" for k :: go_int
    using sint_add_no_overflow [of k "RiskScore s"] that by simp
  have v: "sint (Violations s + 1) = sint (Violations s) + 1"
    if "sint (Violations s) < 2 ^ 63 - 1"
    using sint_add_no_overflow [of 1 "Violations s"] that by simp
  from r [of 100] r [of 50] r [of 10] r [of 25] v show ?thesis
    by (simp add: AddCommand_session AddFileOperation_session Let_def)
qed

theorem ledger_increments_witness:
  "sint (RiskScore example_session) < 2 ^ 63 - 100 \<and>
   sint (Violations example_session) < 2 ^ 63 - 1 \<and>
   sint (RiskScore (session_after (AddCommand (example_env WriteOk) example_manager
      example_session (example_command ''critical'') empty_world))) = 100 \<and>
   sint (Violations (session_after (AddCommand (example_env WriteOk) example_manager
      example_session (example_command ''critical'') empty_world))) = 1 \<and>
   sint (RiskScore (session_after (AddCommand (example_env WriteOk) example_manager
      example_session (example_command ''medium'') empty_world))) = 10 \<and>
   sint (RiskScore (session_after (AddFileOperation (example_env OpenFails) example_manager
      example_session (example_file_operation False) empty_world))) = 25"
proof -
  have g: "sint (RiskScore example_session) < 2 ^ 63 - 100"
    "sint (Violations example_session) < 2 ^ 63 - 1"
    by (simp_all add: example_session_def)
  have l: "RiskLevel (example_command x) = x" for x by (simp add: example_command_def)
  have z: "sint (RiskScore example_session) = 0" "sint (Violations example_session) = 0"
    by (simp_all add: example_session_def)
  have a: "\<not> Allowed (example_file_operation False)" by (simp add: example_file_operation_def)
  from ledger_increments [where s = example_session and env = "example_env WriteOk"
          and m = example_manager and cmd = "example_command ''critical''" and w = empty_world
          and op = "example_file_operation True"]
        ledger_increments [where s = example_session and env = "example_env WriteOk"
          and m = example_manager and cmd = "example_command ''medium''" and w = empty_world
          and op = "example_file_operation True"]
        ledger_increments [where s = example_session and env = "example_env OpenFails"
          and m = example_manager and cmd = "example_command ''low''" and w = empty_world
          and op = "example_file_operation False"]
        g l z a
  show ?thesis by (simp add: Let_def)
qed

subsection \<open>The session ledger: append only, risk score\<close>

text \<open>
  Claim C7 as stated fails where Go's \<^verbatim>\<open>int\<close> wraps around: a session whose risk score
  is the largest \<^verbatim>\<open>int\<close> (a session file can hold it) has a negative score after a
  critical command.
\<close>

theorem riskScore_overflow_counterexample:
  "\<not> sint (RiskScore (example_session\<lparr>RiskScore := 9223372036854775807\<rparr>))
     \<le> sint (RiskScore (session_after (apply_update (example_env WriteOk) example_manager
          (example_session\<lparr>RiskScore := 9223372036854775807\<rparr>)
          (UAddCommand (example_command ''critical'')) empty_world)))"
  by (simp add: AddCommand_session example_command_def)

text \<open>
  Claim C7, amended. For every session and every update (\<^verbatim>\<open>AddCommand\<close>,
  \<^verbatim>\<open>AddFileOperation\<close>, \<^verbatim>\<open>End\<close>): the risk score does not decrease when it is at most
  the largest \<^verbatim>\<open>int\<close> less 100, so that the increment does not wrap around; the
  commands after the update are the commands before it followed by the new command, if
  the update adds one, and likewise the file operations. No earlier element changes.
\<close>

theorem ledger_update_append_only:
  "(let s' = session_after (apply_update env m s u w) in
      (sint (RiskScore s) < 2 ^ 63 - 100 \<longrightarrow> sint (RiskScore s) \<le> sint (RiskScore s')) \<and>
      Commands s' = Commands s @ (case u of UAddCommand cmd \<Rightarrow> [cmd] | _ \<Rightarrow> []) \<and>
      FileOps s' = FileOps s @ (case u of UAddFileOperation op \<Rightarrow> [op] | _ \<Rightarrow> []))"
proof (cases u)
  case (UAddCommand cmd)
  have k: "sint (RiskScore s) < 2 ^ 63 - 100 \<Longrightarrow> sint (RiskScore s) \<le> sint (RiskScore s + k)"
    if "0 \<le> sint k" "sint k \<le> 100" for k :: go_int
    using sint_add_no_overflow [of k "RiskScore s"] that by simp
  from k [of 100] k [of 50] k [of 10]
  show ?thesis unfolding UAddCommand
    by (simp add: AddCommand_session Let_def)
next
  case (UAddFileOperation op)
  have "sint (RiskScore s) < 2 ^ 63 - 100 \<Longrightarrow> sint (RiskScore s) \<le> sint (RiskScore s + 25)"
    using sint_add_no_overflow [of 25 "RiskScore s"] by simp
  then show ?thesis unfolding UAddFileOperation
    by (simp add: AddFileOperation_session Let_def)
next
  case (UEnd now)
  show ?thesis unfolding UEnd by (simp add: End_session Let_def)
qed

theorem ledger_update_append_only_witness:
  "sint (RiskScore example_session) < 2 ^ 63 - 100 \<and>
   sint (RiskScore (session_after (apply_update (example_env WriteOk) example_manager
      example_session (UAddCommand (example_command ''high'')) empty_world))) = 50 \<and>
   Commands (session_after (apply_update (example_env WriteOk) example_manager
      example_session (UAddCommand (example_command ''high'')) empty_world)) =
     [example_command ''high'']"
  using ledger_update_append_only [where s = example_session and env = "example_env WriteOk"
          and m = example_manager and u = "UAddCommand (example_command ''high'')"
          and w = empty_world]
  by (simp add: Let_def AddCommand_session example_command_def example_session_def)

subsection \<open>The exec pipeline: what one run does\<close>

lemma warn_findings_frame:
  "files (warn_findings fs w) = files w \<and> calls (warn_findings fs w) = calls w \<and>
   host_runs (warn_findings fs w) = host_runs w \<and> prompts (warn_findings fs w) = prompts w \<and>
   logged (warn_findings fs w) =
     logged w @ replicate (length fs) (LevelWarn, ''command risk detected'')"
  by (induction fs arbitrary: w) (simp_all add: log_at_def replicate_app_Cons_same)

lemma approval_cases:
  "approval env interactive riskLevel cmdString findings w =
     (if interactive then
        (if approves (Stdin env)
         then (None, w\<lparr>prompts := prompts w @ [(riskLevel, cmdString)]\<rparr>)
         else (Some (ExitError ''execution denied'' 3),
               log_at LevelInfo ''command execution denied by user''
                 (w\<lparr>prompts := prompts w @ [(riskLevel, cmdString)]\<rparr>)))
      else if riskLevel = ''critical'' then
        (Some (ExitError ''critical command blocked (use --interactive to approve)'' 3),
         log_at LevelError ''critical command blocked'' w)
      else (None, w))"
  by (simp add: approval_def promptForApproval_def approves_def Let_def)

lemma save_frame:
  "logged (snd (save env m s w)) = logged w \<and> host_runs (snd (save env m s w)) = host_runs w \<and>
   prompts (snd (save env m s w)) = prompts w"
  by (simp add: save_def os_WriteFile_def Let_def split: option.splits write_outcome.splits)

lemma AddCommand_frame:
  "logged (world_after (AddCommand env m s cmd w)) = logged w \<and>
   host_runs (world_after (AddCommand env m s cmd w)) = host_runs w \<and>
   prompts (world_after (AddCommand env m s cmd w)) = prompts w"
  using save_frame
  by (simp add: AddCommand_def world_after_def Let_def split: prod.splits) (metis snd_conv)

lemma trackInSession_frame:
  "logged (trackInSession env sid rec w) = logged w \<and>
   host_runs (trackInSession env sid rec w) = host_runs w \<and>
   prompts (trackInSession env sid rec w) = prompts w"
  by (auto simp: trackInSession_def NewManager_def Load_def Let_def AddCommand_frame
      split: prod.splits sum.splits option.splits if_splits)

lemma runExec_refused:
  assumes "refused env interactive (findings_of env cfg (cmdName # args))"
  shows "fst (runExec env cfg (cmdName # args) interactive sessionID w) =
           Some (ExitError (if interactive then ''execution denied''
                            else ''critical command blocked (use --interactive to approve)'') 3)"
    and "host_runs (snd (runExec env cfg (cmdName # args) interactive sessionID w)) = host_runs w"
    and "files (snd (runExec env cfg (cmdName # args) interactive sessionID w)) = files w"
    and "calls (snd (runExec env cfg (cmdName # args) interactive sessionID w)) = calls w"
  using assms
  by (auto simp: runExec_def refused_def findings_of_def Let_def approval_cases log_at_def
      warn_findings_frame split: prod.splits if_splits)

lemma runExec_not_refused:
  assumes "\<not> refused env interactive (findings_of env cfg (cmdName # args))"
  shows "host_runs (snd (runExec env cfg (cmdName # args) interactive sessionID w)) =
           host_runs w @ [(cmdName, args)]"
  using assms
  by (auto simp: runExec_def refused_def findings_of_def Let_def approval_cases log_at_def
      warn_findings_frame trackInSession_frame split: prod.splits if_splits run_outcome.splits)

lemma runExec_prompts:
  "prompts (snd (runExec env cfg (cmdName # args) interactive sessionID w)) =
     prompts w @
       (if interactive \<and> findings_of env cfg (cmdName # args) \<noteq> []
        then [(fst (assess (findings_of env cfg (cmdName # args))),
               strings_Join (cmdName # args) '' '')]
        else [])"
  by (auto simp: runExec_def findings_of_def Let_def approval_cases log_at_def
      warn_findings_frame trackInSession_frame split: prod.splits if_splits run_outcome.splits)

lemma runExec_executed:
  assumes "\<not> refused env interactive (findings_of env cfg (cmdName # args))"
    and "\<forall>msg. Run env \<noteq> RunOtherError msg"
  shows "Execute (fst (runExec env cfg (cmdName # args) interactive sessionID w)) =
           os_Exit (child_code (Run env))"
    and "logged (snd (runExec env cfg (cmdName # args) interactive sessionID w)) =
           logged w @
           replicate (length (findings_of env cfg (cmdName # args)))
             (LevelWarn, ''command risk detected'') @
           [(LevelInfo, ''command executed'')]"
  using assms
  by (auto simp: runExec_def refused_def findings_of_def Let_def approval_cases log_at_def
      warn_findings_frame trackInSession_frame Execute_def child_code_def os_Exit_def
      split: prod.splits if_splits run_outcome.splits)

lemma approves_examples:
  "approves ''y''" "approves ''yes''" "approves ''Y''" "approves ''Yes''"
  "approves ''yes please''" "approves '' y n''"
  "\<not> approves ''r''" "\<not> approves ''n''" "\<not> approves []" "\<not> approves ''no yes''"
  by (simp_all add: approves_def Scanln_def ToLower_def TrimSpace_def is_space_def
      lower_char_def char_of_def bit_0)

lemma os_Exit_status: "os_Exit (ucast (status :: 8 word)) = status"
  unfolding os_Exit_def by (simp add: ucast_up_ucast_id is_up)

lemma os_Exit_minus_one: "os_Exit (- 1) = 255"
proof -
  have m: "(255 :: 8 word) = - 1" by simp
  show ?thesis unfolding os_Exit_def m by (rule bit_word_eqI) (auto simp: bit_simps)
qed

subsection \<open>The exec pipeline and the mandatory codes\<close>

text \<open>
  Claim C1, at the failing input. \<^verbatim>\<open>runExec\<close> computes no execution mode and never
  calls the sandbox executor. With sandboxing enabled, an interactive run of
  \<^verbatim>\<open>rm -r /*\<close>, for which the analyzer reports \<open>DANGEROUS_DELETE_ROOT\<close> with severity
  critical, hands the command to \<^verbatim>\<open>exec.Command("rm", "-r", "/*").Run()\<close> on the host once
  the user answers \<^verbatim>\<open>y\<close>; the child runs and the supervisor returns no error.
\<close>

theorem mandatory_code_runs_on_host:
  "has_mandatory_code [delete_root_finding] \<and>
   Enabled (Sandbox (example_config True)) \<and>
   fst (runExec (example_exec_env [delete_root_finding] ''y'' RunNil WriteOk)
      (example_config True) [''rm'', ''-r'', ''/*''] True [] empty_world) = None \<and>
   host_runs (snd (runExec (example_exec_env [delete_root_finding] ''y'' RunNil WriteOk)
      (example_config True) [''rm'', ''-r'', ''/*''] True [] empty_world)) =
     [(''rm'', [''-r'', ''/*''])]"
proof -
  have y: "approves ''y''" by (rule approves_examples)
  show ?thesis
    using y
    by (simp add: has_mandatory_code_def MandatorySandboxCodes_def delete_root_finding_def
        example_config_def runExec_def assess_def bump_risk_def approval_cases
        example_exec_env_def empty_world_def log_at_def trackInSession_def Let_def)
qed

subsection \<open>The exec pipeline with sandboxing disabled\<close>

text \<open>
  Claim C2, at the failing inputs. \<^verbatim>\<open>runExec\<close> never reads \<^verbatim>\<open>cfg.Sandbox.Enabled\<close>. With
  sandboxing disabled, a run of \<^verbatim>\<open>cat .env\<close> that is not interactive, for which the
  analyzer reports \<open>DOTENV_FILE_READ\<close> with severity high, returns no error and the
  command runs on the host; and so does an interactive run of \<^verbatim>\<open>rm -r /*\<close>, reported as
  \<open>DANGEROUS_DELETE_ROOT\<close> with severity critical, once the user answers \<^verbatim>\<open>y\<close>.
\<close>

theorem sandbox_disabled_runs_on_host:
  "has_mandatory_code [dotenv_finding] \<and>
   has_mandatory_code [delete_root_finding] \<and>
   \<not> Enabled (Sandbox (example_config False)) \<and>
   fst (runExec (example_exec_env [dotenv_finding] [] RunNil WriteOk)
      (example_config False) [''cat'', ''.env''] False [] empty_world) = None \<and>
   host_runs (snd (runExec (example_exec_env [dotenv_finding] [] RunNil WriteOk)
      (example_config False) [''cat'', ''.env''] False [] empty_world)) =
     [(''cat'', [''.env''])] \<and>
   fst (runExec (example_exec_env [delete_root_finding] ''y'' RunNil WriteOk)
      (example_config False) [''rm'', ''-r'', ''/*''] True [] empty_world) = None \<and>
   host_runs (snd (runExec (example_exec_env [delete_root_finding] ''y'' RunNil WriteOk)
      (example_config False) [''rm'', ''-r'', ''/*''] True [] empty_world)) =
     [(''rm'', [''-r'', ''/*''])]"
proof -
  have y: "approves ''y''" by (rule approves_examples)
  show ?thesis
    using y
    by (simp add: has_mandatory_code_def MandatorySandboxCodes_def dotenv_finding_def
        delete_root_finding_def example_config_def runExec_def assess_def bump_risk_def
        approval_cases example_exec_env_def empty_world_def log_at_def trackInSession_def
        Let_def)
qed

subsection \<open>The approval prompt\<close>

text \<open>
  Claim C3, at the failing inputs. An interactive run whose only finding is of severity
  low (risk level low) is prompted all the same. The answer \<^verbatim>\<open>r\<close> does not run the
  command and remember it: \<^verbatim>\<open>runExec\<close> returns the \<^verbatim>\<open>exitError\<close> \<^verbatim>\<open>execution denied\<close> with
  code 3, nothing is handed to the host and no file-system call is made; \<^verbatim>\<open>runExec\<close>
  consults no trust store.
\<close>

theorem prompt_on_low_risk_and_answer_r:
  "fst (assess [allowlist_finding]) = ''low'' \<and>
   prompts (snd (runExec (example_exec_env [allowlist_finding] ''y'' RunNil WriteOk)
      (example_config True) [''echo'', ''test''] True [] empty_world)) =
     [(''low'', ''echo test'')] \<and>
   fst (runExec (example_exec_env [dotenv_finding] ''r'' RunNil WriteOk)
      (example_config True) [''cat'', ''.env''] True [] empty_world) =
     Some (ExitError ''execution denied'' 3) \<and>
   host_runs (snd (runExec (example_exec_env [dotenv_finding] ''r'' RunNil WriteOk)
      (example_config True) [''cat'', ''.env''] True [] empty_world)) = [] \<and>
   calls (snd (runExec (example_exec_env [dotenv_finding] ''r'' RunNil WriteOk)
      (example_config True) [''cat'', ''.env''] True [] empty_world)) = []"
proof -
  have l: "fst (assess [allowlist_finding]) = ''low''"
    by (simp add: assess_def bump_risk_def allowlist_finding_def)
  have p: "prompts (snd (runExec (example_exec_env [allowlist_finding] ''y'' RunNil WriteOk)
      (example_config True) [''echo'', ''test''] True [] empty_world)) =
     [(''low'', ''echo test'')]"
    unfolding runExec_prompts
    by (simp add: findings_of_def example_exec_env_def l empty_world_def)
  have nr: "\<not> approves ''r''" by (rule approves_examples)
  have rf: "refused (example_exec_env [dotenv_finding] ''r'' RunNil WriteOk) True
      (findings_of (example_exec_env [dotenv_finding] ''r'' RunNil WriteOk)
         (example_config True) [''cat'', ''.env''])"
    using nr by (simp add: refused_def findings_of_def example_exec_env_def)
  from l p runExec_refused [OF rf, of "[]" empty_world]
  show ?thesis by (simp add: empty_world_def)
qed

subsection \<open>The exit status\<close>

text \<open>
  Claim C4 as stated fails in its second half: \<^verbatim>\<open>runExec\<close> drops the error of
  \<^verbatim>\<open>AddCommand\<close> (\<^verbatim>\<open>_ = mgr.AddCommand(sess, cmdRecord)\<close>). In a run bound to the persisted
  example session whose ledger write fails after three bytes, the session file is left
  damaged and the log holds the one entry \<^verbatim>\<open>command executed\<close>, at level info.
\<close>

theorem ledger_failure_not_logged_counterexample:
  "files persisted_world (session_path example_manager example_session) = Some ''session-7'' \<and>
   files (snd (runExec (example_exec_env [] [] RunNil (WriteFailsAfter 3))
      (example_config True) [''echo'', ''hi''] False ''session-7'' persisted_world))
     (session_path example_manager example_session) = Some ''ses'' \<and>
   logged (snd (runExec (example_exec_env [] [] RunNil (WriteFailsAfter 3))
      (example_config True) [''echo'', ''hi''] False ''session-7'' persisted_world)) =
     [(LevelInfo, ''command executed'')] \<and>
   fst (runExec (example_exec_env [] [] RunNil (WriteFailsAfter 3))
      (example_config True) [''echo'', ''hi''] False ''session-7'' persisted_world) = None"
  by (simp add: runExec_def assess_def example_exec_env_def trackInSession_def NewManager_def
      Load_def AddCommand_def save_def os_WriteFile_def world_after_def log_at_def
      persisted_world_def example_env_def example_marshal_def example_unmarshal_def
      example_session_def example_manager_def session_path_def filepath_Join_def
      empty_world_def Let_def)

text \<open>
  Claim C4, amended. Take a run that is not refused and whose child was started. When
  the child exits with a status, the exit status of the supervisor is that status (0
  when \<^verbatim>\<open>cmd.Run()\<close> returns \<^verbatim>\<open>nil\<close>); when a signal kills the child, \<^verbatim>\<open>ExitCode()\<close> is
  \<open>-1\<close> and the supervisor exits with status 255. Whatever happens in the session ledger
  afterwards (its directory cannot be made, the session cannot be loaded, the write
  fails) changes neither that status nor the log: nothing is logged for it, and the log
  ends with the entry \<^verbatim>\<open>command executed\<close> at level info.
\<close>

theorem exit_status_is_the_childs:
  assumes "\<not> refused env interactive (findings_of env cfg (cmdName # args))"
  shows "(let r = runExec (env\<lparr>MkdirAll_ok := mk, Unmarshal := um, ledger := l\<rparr>) cfg
                    (cmdName # args) interactive sessionID w
          in (Run env = RunNil \<longrightarrow> Execute (fst r) = 0) \<and>
             (\<forall>status. Run env = RunExitError (Exited status) \<longrightarrow> Execute (fst r) = status) \<and>
             (Run env = RunExitError Signaled \<longrightarrow> Execute (fst r) = 255) \<and>
             ((\<forall>msg. Run env \<noteq> RunOtherError msg) \<longrightarrow>
                logged (snd r) =
                  logged w @
                  replicate (length (findings_of env cfg (cmdName # args)))
                    (LevelWarn, ''command risk detected'') @
                  [(LevelInfo, ''command executed'')]))"
proof -
  let ?env = "env\<lparr>MkdirAll_ok := mk, Unmarshal := um, ledger := l\<rparr>"
  let ?r = "runExec ?env cfg (cmdName # args) interactive sessionID w"
  have f: "findings_of ?env cfg (cmdName # args) = findings_of env cfg (cmdName # args)"
    by (simp add: findings_of_def)
  have r: "\<not> refused ?env interactive (findings_of ?env cfg (cmdName # args))"
    using assms unfolding f by (auto simp: refused_def split: if_splits)
  have run: "Run ?env = Run env" by simp
  have ex: "Execute (fst ?r) = os_Exit (child_code (Run env))"
    and lg: "logged (snd ?r) =
        logged w @
        replicate (length (findings_of env cfg (cmdName # args)))
          (LevelWarn, ''command risk detected'') @
        [(LevelInfo, ''command executed'')]"
    if "\<forall>msg. Run env \<noteq> RunOtherError msg"
    using runExec_executed [OF r, of sessionID w] that unfolding f run by blast+
  have a: "Run env = RunNil \<longrightarrow> Execute (fst ?r) = 0"
    using ex by (auto simp: child_code_def os_Exit_def)
  have b: "\<forall>status. Run env = RunExitError (Exited status) \<longrightarrow> Execute (fst ?r) = status"
    using ex by (auto simp: child_code_def ProcessState_ExitCode_def os_Exit_status)
  have c: "Run env = RunExitError Signaled \<longrightarrow> Execute (fst ?r) = 255"
    using ex by (auto simp: child_code_def ProcessState_ExitCode_def os_Exit_minus_one)
  show ?thesis unfolding Let_def using a b c lg by blast
qed

theorem exit_status_is_the_childs_witness:
  "\<not> refused (example_exec_env [] [] (RunExitError (Exited 2)) WriteOk) False
       (findings_of (example_exec_env [] [] (RunExitError (Exited 2)) WriteOk)
          (example_config True) [''false'']) \<and>
   Execute (fst (runExec
      ((example_exec_env [] [] (RunExitError (Exited 2)) WriteOk)
         \<lparr>MkdirAll_ok := False, Unmarshal := example_unmarshal, ledger := example_env OpenFails\<rparr>)
      (example_config True) [''false''] False ''session-7'' persisted_world)) = 2 \<and>
   Execute (fst (runExec
      ((example_exec_env [] [] (RunExitError Signaled) WriteOk)
         \<lparr>MkdirAll_ok := False, Unmarshal := example_unmarshal, ledger := example_env OpenFails\<rparr>)
      (example_config True) [''sleep'', ''9''] False ''session-7'' persisted_world)) = 255"
proof -
  let ?env = "example_exec_env [] [] (RunExitError (Exited 2)) WriteOk"
  let ?env2 = "example_exec_env [] [] (RunExitError Signaled) WriteOk"
  have f: "findings_of ?env (example_config True) [''false''] = []"
    by (simp add: findings_of_def example_exec_env_def)
  have f2: "findings_of ?env2 (example_config True) [''sleep'', ''9''] = []"
    by (simp add: findings_of_def example_exec_env_def)
  have r: "\<not> refused ?env False (findings_of ?env (example_config True) [''false''])"
    unfolding f by (simp add: refused_def)
  have r2: "\<not> refused ?env2 False (findings_of ?env2 (example_config True) [''sleep'', ''9''])"
    unfolding f2 by (simp add: refused_def)
  have o: "Run ?env = RunExitError (Exited 2)" "Run ?env2 = RunExitError Signaled"
    by (simp_all add: example_exec_env_def)
  from exit_status_is_the_childs [OF r, where mk = False and um = example_unmarshal
         and l = "example_env OpenFails" and sessionID = "''session-7''" and w = persisted_world]
       exit_status_is_the_childs [OF r2, where mk = False and um = example_unmarshal
         and l = "example_env OpenFails" and sessionID = "''session-7''" and w = persisted_world]
       r o
  show ?thesis by (simp add: Let_def)
qed

subsection \<open>How the ledger persists a session\<close>

lemma save_effect:
  assumes "MarshalIndent env s = Some data"
  shows "calls (snd (save env m s w)) = calls w @ [WriteFile (session_path m s) data]"
    and "p \<noteq> session_path m s \<Longrightarrow> files (snd (save env m s w)) p = files w p"
    and "write_result env = WriteOk \<Longrightarrow>
           fst (save env m s w) = None \<and>
           files (snd (save env m s w)) (session_path m s) = Some data"
    and "write_result env = OpenFails \<Longrightarrow>
           fst (save env m s w) = Some WriteSession \<and>
           files (snd (save env m s w)) (session_path m s) = files w (session_path m s)"
    and "write_result env = WriteFailsAfter n \<Longrightarrow>
           fst (save env m s w) = Some WriteSession \<and>
           files (snd (save env m s w)) (session_path m s) = Some (take n data)"
  using assms
  by (auto simp: save_def session_path_def os_WriteFile_def Let_def split: write_outcome.splits)

lemma save_marshal_fails:
  "MarshalIndent env s = None \<Longrightarrow> save env m s w = (Some MarshalSession, w)"
  by (simp add: save_def)

lemma apply_update_save:
  "fst (apply_update env m s u w) =
     fst (save env m (session_after (apply_update env m s u w)) w) \<and>
   files (world_after (apply_update env m s u w)) =
     files (snd (save env m (session_after (apply_update env m s u w)) w)) \<and>
   calls (world_after (apply_update env m s u w)) =
     calls (snd (save env m (session_after (apply_update env m s u w)) w))"
  by (cases u)
     (auto simp: AddCommand_def AddFileOperation_def End_def session_after_def world_after_def
        log_at_def Let_def split: prod.splits option.splits)

text \<open>
  Claim C8 as stated fails: \<^verbatim>\<open>save\<close> calls \<^verbatim>\<open>os.WriteFile\<close> on the session file itself.
  The example session is on disk; \<^verbatim>\<open>AddCommand\<close> with a write that fails after three
  bytes returns the write error and leaves the three bytes in the file. The only
  file-system calls are the two \<^verbatim>\<open>WriteFile\<close> calls on the session file.
\<close>

theorem save_in_place_counterexample:
  "fst (AddCommand (example_env (WriteFailsAfter 3)) example_manager example_session
      (example_command ''low'') persisted_world) = Some WriteSession \<and>
   files persisted_world (session_path example_manager example_session) = Some ''session-7'' \<and>
   files (world_after (AddCommand (example_env (WriteFailsAfter 3)) example_manager
      example_session (example_command ''low'') persisted_world))
     (session_path example_manager example_session) = Some ''ses'' \<and>
   calls (world_after (AddCommand (example_env (WriteFailsAfter 3)) example_manager
      example_session (example_command ''low'') persisted_world)) =
     [WriteFile (session_path example_manager example_session) ''session-7'',
      WriteFile (session_path example_manager example_session) ''session-7c'']"
  by (simp add: AddCommand_def world_after_def persisted_world_def save_def example_env_def
      example_marshal_def example_session_def example_command_def os_WriteFile_def
      session_path_def empty_world_def Let_def)

lemma save_written_in_place:
  "written_in_place env m s (fst (save env m s w)) w (snd (save env m s w))"
proof -
  let ?path = "filepath_Join [sessionDir m, ID s @ ''.json'']"
  have p: "?path = session_path m s" by (simp add: session_path_def)
  have some: "calls (snd (save env m s w)) = calls w @ [WriteFile ?path data] \<and>
        (\<forall>p. p \<noteq> ?path \<longrightarrow> files (snd (save env m s w)) p = files w p) \<and>
        (write_result env = WriteOk \<longrightarrow>
           fst (save env m s w) = None \<and> files (snd (save env m s w)) ?path = Some data) \<and>
        (write_result env = OpenFails \<longrightarrow>
           fst (save env m s w) = Some WriteSession \<and>
           files (snd (save env m s w)) ?path = files w ?path) \<and>
        (\<forall>n. write_result env = WriteFailsAfter n \<longrightarrow>
           fst (save env m s w) = Some WriteSession \<and>
           files (snd (save env m s w)) ?path = Some (take n data))"
    if d: "MarshalIndent env s = Some data" for data
    unfolding p using save_effect [OF d, where m = m and w = w] by simp
  have none: "MarshalIndent env s = None \<longrightarrow>
        fst (save env m s w) = Some MarshalSession \<and>
        calls (snd (save env m s w)) = calls w \<and> files (snd (save env m s w)) = files w"
    by (simp add: save_marshal_fails)
  show ?thesis unfolding written_in_place_def Let_def using some none by blast
qed

lemma written_in_place_cong:
  "written_in_place env m s err w w1 \<Longrightarrow> files w2 = files w1 \<Longrightarrow> calls w2 = calls w1 \<Longrightarrow>
   written_in_place env m s err w w2"
  by (simp add: written_in_place_def)

lemma Start_save:
  "(case fst (Start env m proc now agentName workspace w) of Inl e \<Rightarrow> Some e | Inr s \<Rightarrow> None) =
     fst (save env m (new_session proc now agentName workspace) w) \<and>
   files (snd (Start env m proc now agentName workspace w)) =
     files (snd (save env m (new_session proc now agentName workspace) w)) \<and>
   calls (snd (Start env m proc now agentName workspace w)) =
     calls (snd (save env m (new_session proc now agentName workspace) w))"
  by (auto simp: Start_def log_at_def Let_def split: prod.splits option.splits)

text \<open>
  Claim C8, amended. Every mutation of the ledger (\<^verbatim>\<open>AddCommand\<close>,
  \<^verbatim>\<open>AddFileOperation\<close>, \<^verbatim>\<open>End\<close>, and \<^verbatim>\<open>Start\<close> for a new session) serialises the whole
  session and issues one file-system call, \<^verbatim>\<open>os.WriteFile\<close> on the session file itself:
  no temporary file, no rename. No other file changes. When the write succeeds the file
  holds the new serialisation; when the file cannot be opened it is unchanged; when the
  write fails after the open, the file holds a prefix of the new serialisation and the
  earlier content is lost. When the session cannot be serialised nothing is written.
\<close>

theorem ledger_writes_in_place:
  "(let r = apply_update env m s u w
    in written_in_place env m (session_after r) (fst r) w (world_after r)) \<and>
   (let r = Start env m proc now agentName workspace w
    in written_in_place env m (new_session proc now agentName workspace)
         (case fst r of Inl e \<Rightarrow> Some e | Inr s' \<Rightarrow> None) w (snd r))"
proof -
  let ?r = "apply_update env m s u w"
  note eq = apply_update_save [of env m s u w]
  have a: "written_in_place env m (session_after ?r) (fst ?r) w (world_after ?r)"
    using save_written_in_place [of env m "session_after ?r" w] eq
    by (auto intro: written_in_place_cong)
  let ?q = "Start env m proc now agentName workspace w"
  note sq = Start_save [of env m proc now agentName workspace w]
  have b: "written_in_place env m (new_session proc now agentName workspace)
         (case fst ?q of Inl e \<Rightarrow> Some e | Inr s' \<Rightarrow> None) w (snd ?q)"
    using save_written_in_place [of env m "new_session proc now agentName workspace" w] sq
    by (auto intro: written_in_place_cong)
  from a b show ?thesis by (simp add: Let_def)
qed

theorem ledger_writes_in_place_witness:
  "fst (apply_update (example_env WriteOk) example_manager example_session
      (UAddCommand (example_command ''low'')) persisted_world) = None \<and>
   files (world_after (apply_update (example_env WriteOk) example_manager example_session
      (UAddCommand (example_command ''low'')) persisted_world))
     (session_path example_manager example_session) = Some ''session-7c'' \<and>
   calls (world_after (apply_update (example_env WriteOk) example_manager example_session
      (UAddCommand (example_command ''low'')) persisted_world)) =
     calls persisted_world @
       [WriteFile (session_path example_manager example_session) ''session-7c'']"
proof -
  let ?r = "apply_update (example_env WriteOk) example_manager example_session
      (UAddCommand (example_command ''low'')) persisted_world"
  have s: "session_after ?r = example_session\<lparr>Commands := [example_command ''low'']\<rparr>"
    by (simp add: AddCommand_session example_command_def example_session_def)
  have d: "MarshalIndent (example_env WriteOk) (session_after ?r) = Some ''session-7c''"
    unfolding s by (simp add: example_env_def example_marshal_def example_session_def)
  have o: "write_result (example_env WriteOk) = WriteOk" by (simp add: example_env_def)
  have i: "ID (session_after ?r) = ID example_session" unfolding s by simp
  from ledger_writes_in_place [of "example_env WriteOk" example_manager example_session
         "UAddCommand (example_command ''low'')" persisted_world
         "\<lparr>UnixNano = 7, Getpid = 1\<rparr>" 7 "''agent''" "''/w''"]
  have "written_in_place (example_env WriteOk) example_manager (session_after ?r) (fst ?r)
          persisted_world (world_after ?r)"
    by (simp add: Let_def)
  with d o show ?thesis unfolding written_in_place_def Let_def i session_path_def by blast
qed

subsection \<open>Session identifiers\<close>

text \<open>
  Claim C9, at the failing input. \<^verbatim>\<open>generateSessionID\<close> formats the clock reading and
  nothing else. Two processes of one workspace, with process ids 100 and 200, that read
  the same nanosecond get the same identifier, so their sessions have the same session
  file, and \<^verbatim>\<open>Start\<close> of the second process overwrites the file that \<^verbatim>\<open>Start\<close> of the first
  process wrote.
\<close>

theorem session_id_collision:
  "Getpid \<lparr>UnixNano = 1700000000000000000, Getpid = 100\<rparr> \<noteq>
     Getpid \<lparr>UnixNano = 1700000000000000000, Getpid = 200\<rparr> \<and>
   generateSessionID \<lparr>UnixNano = 1700000000000000000, Getpid = 100\<rparr> =
     ''session-1700000000000000000'' \<and>
   generateSessionID \<lparr>UnixNano = 1700000000000000000, Getpid = 200\<rparr> =
     ''session-1700000000000000000'' \<and>
   session_path example_manager
       (new_session \<lparr>UnixNano = 1700000000000000000, Getpid = 100\<rparr> 5 ''agent-a'' ''/w'') =
     session_path example_manager
       (new_session \<lparr>UnixNano = 1700000000000000000, Getpid = 200\<rparr> 6 ''agent-b'' ''/w'') \<and>
   calls (snd (Start (example_env WriteOk) example_manager
       \<lparr>UnixNano = 1700000000000000000, Getpid = 200\<rparr> 6 ''agent-b'' ''/w''
       (snd (Start (example_env WriteOk) example_manager
          \<lparr>UnixNano = 1700000000000000000, Getpid = 100\<rparr> 5 ''agent-a'' ''/w''
          empty_world)))) =
     [WriteFile ''/w/.vectra-guard/sessions/session-1700000000000000000.json''
        ''session-1700000000000000000'',
      WriteFile ''/w/.vectra-guard/sessions/session-1700000000000000000.json''
        ''session-1700000000000000000'']"
proof -
  have a: "generateSessionID \<lparr>UnixNano = 1700000000000000000, Getpid = 100\<rparr> =
      ''session-1700000000000000000''"
    by (simp add: generateSessionID_def format_d_def dec_digits.simps digit_char_def
        char_of_def bit_0)
  have b: "generateSessionID \<lparr>UnixNano = 1700000000000000000, Getpid = 200\<rparr> =
      ''session-1700000000000000000''"
    by (simp add: generateSessionID_def format_d_def dec_digits.simps digit_char_def
        char_of_def bit_0)
  have p: "session_path example_manager
       (new_session \<lparr>UnixNano = 1700000000000000000, Getpid = 100\<rparr> 5 ''agent-a'' ''/w'') =
     session_path example_manager
       (new_session \<lparr>UnixNano = 1700000000000000000, Getpid = 200\<rparr> 6 ''agent-b'' ''/w'')"
    by (simp add: session_path_def new_session_def a b)
  have s: "calls (snd (Start (example_env WriteOk) example_manager
       \<lparr>UnixNano = 1700000000000000000, Getpid = 200\<rparr> 6 ''agent-b'' ''/w''
       (snd (Start (example_env WriteOk) example_manager
          \<lparr>UnixNano = 1700000000000000000, Getpid = 100\<rparr> 5 ''agent-a'' ''/w''
          empty_world)))) =
     [WriteFile ''/w/.vectra-guard/sessions/session-1700000000000000000.json''
        ''session-1700000000000000000'',
      WriteFile ''/w/.vectra-guard/sessions/session-1700000000000000000.json''
        ''session-1700000000000000000'']"
    by (simp add: Start_def new_session_def a b save_def os_WriteFile_def example_env_def
        example_marshal_def example_manager_def filepath_Join_def empty_world_def log_at_def
        Let_def)
  from a b p s show ?thesis by simp
qed

subsection \<open>The daemon's approval queue\<close>

lemma queue_inv_New: "queue_inv New"
  by (simp add: queue_inv_def New_def)

lemma queue_inv_step: "queue_inv d \<Longrightarrow> queue_inv (step e d)"
proof (cases e)
  case SetSession
  assume "queue_inv d"
  then show ?thesis unfolding SetSession by (simp add: queue_inv_def)
next
  case GoProcess
  assume "queue_inv d"
  then show ?thesis unfolding GoProcess by (simp add: queue_inv_def)
next
  case (Intercept cmd args who)
  assume "queue_inv d"
  then show ?thesis unfolding Intercept
    by (auto simp: queue_inv_def Let_def)
next
  case Process
  assume i: "queue_inv d"
  show ?thesis
  proof (cases "interceptCh d")
    case Nil
    with i show ?thesis unfolding Process by simp
  next
    case (Cons cmd rest)
    from i Cons have "ApprovedCh cmd \<notin> ApprovedCh ` set rest"
      by (simp add: queue_inv_def)
    then have fresh: "x \<in> set rest \<Longrightarrow> ApprovedCh x \<noteq> ApprovedCh cmd" for x
      by (metis imageI)
    from i Cons fresh show ?thesis unfolding Process
      by (auto simp: queue_inv_def Let_def)
  qed
next
  case (ReplyTaken c)
  assume i: "queue_inv d"
  show ?thesis
  proof (cases "replies d c")
    case Nil
    with i show ?thesis unfolding ReplyTaken by simp
  next
    case (Cons v rest)
    from i have "set (replies d c) \<subseteq> {True}" unfolding queue_inv_def by blast
    with Cons have v: "v" and rest: "set rest \<subseteq> {True}" by auto
    have other: "cmd \<in> set (interceptCh d) \<Longrightarrow> ApprovedCh cmd \<noteq> c" for cmd
      using i Cons by (auto simp: queue_inv_def)
    from i Cons v rest other show ?thesis unfolding ReplyTaken
      by (auto simp: queue_inv_def)
  qed
next
  case (TimerTaken c)
  assume "queue_inv d"
  then show ?thesis unfolding TimerTaken by (auto simp: queue_inv_def)
next
  case Stop
  assume "queue_inv d"
  then show ?thesis unfolding Stop by (simp add: queue_inv_def)
qed

lemma queue_inv_run: "queue_inv d \<Longrightarrow> queue_inv (run_schedule es d)"
  by (induction es arbitrary: d) (simp_all add: queue_inv_step)

lemma run_schedule_append: "run_schedule (es @ fs) d = run_schedule fs (run_schedule es d)"
  by (induction es arbitrary: d) simp_all

lemma process_stopped:
  "\<not> processing d \<Longrightarrow> run_schedule (replicate k Process) d = d"
  by (induction k) simp_all

text \<open>The processor step on a queue that is not empty: the head leaves the queue, one
  entry is logged at level debug, and \<open>True\<close> goes into the reply channel of the head.\<close>

lemma step_Process_head:
  assumes "queue_inv d" "processing d" "interceptCh d = c0 # rest"
  shows "step Process d =
           d\<lparr>interceptCh := rest,
             dlogged := dlogged d @ [(LevelDebug, ''command intercepted'')],
             replies := (replies d)(ApprovedCh c0 := [True])\<rparr>"
  using assms by (simp add: queue_inv_def Let_def)

text \<open>As many processor steps as the queue is long empty the queue; every command that
  was queued then has \<open>True\<close> in its reply channel, and no call has returned meanwhile.\<close>

lemma process_all:
  "queue_inv d \<Longrightarrow> processing d \<Longrightarrow> length (interceptCh d) = n \<Longrightarrow>
   interceptCh (run_schedule (replicate n Process) d) = [] \<and>
   (\<forall>cmd\<in>set (interceptCh d).
      replies (run_schedule (replicate n Process) d) (ApprovedCh cmd) = [True]) \<and>
   (\<forall>c. c \<notin> ApprovedCh ` set (interceptCh d) \<longrightarrow>
      replies (run_schedule (replicate n Process) d) c = replies d c) \<and>
   returned (run_schedule (replicate n Process) d) = returned d \<and>
   waiting (run_schedule (replicate n Process) d) = waiting d"
proof (induction n arbitrary: d)
  case 0
  then show ?case by simp
next
  case (Suc n)
  from Suc.prems(3) obtain c0 rest where q: "interceptCh d = c0 # rest"
    by (cases "interceptCh d") simp_all
  let ?d1 = "step Process d"
  have d1: "?d1 = d\<lparr>interceptCh := rest,
             dlogged := dlogged d @ [(LevelDebug, ''command intercepted'')],
             replies := (replies d)(ApprovedCh c0 := [True])\<rparr>"
    using Suc.prems(1,2) q by (rule step_Process_head)
  have i1: "queue_inv ?d1" using Suc.prems(1) by (rule queue_inv_step)
  have p1: "processing ?d1" unfolding d1 using Suc.prems(2) by simp
  have l1: "length (interceptCh ?d1) = n" unfolding d1 using Suc.prems(3) q by simp
  have q1: "interceptCh ?d1 = rest" unfolding d1 by simp
  have fresh: "ApprovedCh c0 \<notin> ApprovedCh ` set rest"
    using Suc.prems(1) q by (simp add: queue_inv_def)
  let ?d' = "run_schedule (replicate n Process) ?d1"
  from Suc.IH [OF i1 p1 l1]
  have e: "interceptCh ?d' = []"
    and r: "\<forall>cmd\<in>set rest. replies ?d' (ApprovedCh cmd) = [True]"
    and o: "\<forall>c. c \<notin> ApprovedCh ` set rest \<longrightarrow> replies ?d' c = replies ?d1 c"
    and t: "returned ?d' = returned ?d1"
    and w: "waiting ?d' = waiting ?d1"
    unfolding q1 by blast+
  have h: "replies ?d' (ApprovedCh c0) = [True]"
    using o fresh unfolding d1 by simp
  have o': "\<forall>c. c \<notin> ApprovedCh ` set (c0 # rest) \<longrightarrow> replies ?d' c = replies d c"
    using o unfolding d1 by simp
  have t': "returned ?d' = returned d" using t unfolding d1 by simp
  have w': "waiting ?d' = waiting d" using w unfolding d1 by simp
  have run: "run_schedule (replicate (Suc n) Process) d = ?d'" by simp
  show ?case unfolding run q using e r h o' t' w' by simp
qed

text \<open>
  Claim C10. Run the daemon from its initial state under any schedule of starts,
  submissions, processor steps, replies taken, timers taken and stops, and call the
  state reached \<open>d\<close>.

  \<^item> Every call of \<^verbatim>\<open>InterceptCommand\<close> that returned \<open>False\<close> returned from the branch of the
    timer, every call that returned with a reply returned \<open>True\<close>, and every reply channel
    holds nothing but \<open>True\<close>.
  \<^item> A call made while no session is set returns \<open>True\<close> at once and queues nothing.
  \<^item> A call made while a session is set, the queue having room, puts the command at the
    end of the queue with a reply channel of its own that is empty, and waits: it has not
    returned, and no reply can be taken yet. If the timer is taken it returns \<open>False\<close> from
    the branch of the timer. If the processor runs for as many steps as the queue is long
    and the reply is then taken, it returns \<open>True\<close>, whatever the command. If the
    processor returns before it took the command, no reply ever arrives: the call can
    return from the branch of the timer only.
  \<^item> A processor step on a queue that is not empty takes the command at the head off the
    queue, logs one entry at level debug and leaves \<open>True\<close> in the reply channel of that
    command, whatever the command; no call returns by it. Once the processor has
    returned, a processor step changes nothing.
\<close>

theorem daemon_approves_every_dequeued_command:
  "(let d = run_schedule es New;
        c = next_chan d;
        d1 = step (Intercept cmd args who) d
    in (\<forall>r\<in>set (returned d).
          (\<not> fst (snd r) \<longrightarrow> snd (snd r) = ViaTimeout) \<and>
          (snd (snd r) = ViaReply \<longrightarrow> fst (snd r))) \<and>
       (\<forall>ch. set (replies d ch) \<subseteq> {True}) \<and>
       (\<not> session_set d \<longrightarrow>
          d1 = d\<lparr>returned := returned d @ [(None, True, NoSession)]\<rparr>) \<and>
       (session_set d \<and> length (interceptCh d) < 100 \<longrightarrow>
          interceptCh d1 =
            interceptCh d @
              [\<lparr>Cmd = cmd, CmdArgs = args, CmdTimestamp = CallTime who, PID = CallPID who,
                PPID = CallPPID who, UID = CallUID who, ApprovedCh = c\<rparr>] \<and>
          replies d1 c = [] \<and>
          c \<in> set (waiting d1) \<and>
          returned d1 = returned d \<and>
          step (ReplyTaken c) d1 = d1 \<and>
          returned (step (TimerTaken c) d1) = returned d @ [(Some c, False, ViaTimeout)] \<and>
          run_schedule (Stop # replicate k Process @ [ReplyTaken c]) d1 = step Stop d1 \<and>
          (processing d \<longrightarrow>
             returned (run_schedule
                 (replicate (length (interceptCh d1)) Process @ [ReplyTaken c]) d1) =
               returned d @ [(Some c, True, ViaReply)])) \<and>
       (processing d \<longrightarrow>
          (\<forall>c0 rest. interceptCh d = c0 # rest \<longrightarrow>
             interceptCh (step Process d) = rest \<and>
             replies (step Process d) (ApprovedCh c0) = [True] \<and>
             dlogged (step Process d) = dlogged d @ [(LevelDebug, ''command intercepted'')] \<and>
             returned (step Process d) = returned d)) \<and>
       (\<not> processing d \<longrightarrow> step Process d = d))"
proof -
  define d where "d = run_schedule es New"
  define c where "c = next_chan d"
  define d1 where "d1 = step (Intercept cmd args who) d"
  define rec where "rec = \<lparr>Cmd = cmd, CmdArgs = args, CmdTimestamp = CallTime who,
    PID = CallPID who, PPID = CallPPID who, UID = CallUID who, ApprovedCh = c\<rparr>"
  have i: "queue_inv d" unfolding d_def by (rule queue_inv_run [OF queue_inv_New])
  have a: "\<forall>r\<in>set (returned d).
      (\<not> fst (snd r) \<longrightarrow> snd (snd r) = ViaTimeout) \<and> (snd (snd r) = ViaReply \<longrightarrow> fst (snd r))"
    using i by (auto simp: queue_inv_def)
  have b: "\<forall>ch. set (replies d ch) \<subseteq> {True}" using i unfolding queue_inv_def by blast
  have n: "\<not> session_set d \<longrightarrow> d1 = d\<lparr>returned := returned d @ [(None, True, NoSession)]\<rparr>"
    unfolding d1_def by simp
  have s: "interceptCh d1 = interceptCh d @ [rec] \<and>
      replies d1 c = [] \<and> c \<in> set (waiting d1) \<and> returned d1 = returned d \<and>
      step (ReplyTaken c) d1 = d1 \<and>
      returned (step (TimerTaken c) d1) = returned d @ [(Some c, False, ViaTimeout)] \<and>
      run_schedule (Stop # replicate k Process @ [ReplyTaken c]) d1 = step Stop d1 \<and>
      (processing d \<longrightarrow>
         returned (run_schedule
             (replicate (length (interceptCh d1)) Process @ [ReplyTaken c]) d1) =
           returned d @ [(Some c, True, ViaReply)])"
    if ss: "session_set d" and room: "length (interceptCh d) < 100"
  proof -
    have d1': "d1 = d\<lparr>next_chan := c + 1, replies := (replies d)(c := []),
        interceptCh := interceptCh d @ [rec], waiting := waiting d @ [c]\<rparr>"
      unfolding d1_def c_def rec_def using ss room by (simp add: Let_def)
    have q: "interceptCh d1 = interceptCh d @ [rec]" unfolding d1' by simp
    have e: "replies d1 c = []" unfolding d1' by simp
    have w: "c \<in> set (waiting d1)" unfolding d1' by simp
    have t: "returned d1 = returned d" unfolding d1' by simp
    have rt: "step (ReplyTaken c) d1 = d1" using e w by simp
    have tt: "returned (step (TimerTaken c) d1) = returned d @ [(Some c, False, ViaTimeout)]"
      using w t by simp
    have st: "run_schedule (Stop # replicate k Process @ [ReplyTaken c]) d1 = step Stop d1"
    proof -
      have "run_schedule (replicate k Process) (step Stop d1) = step Stop d1"
        by (rule process_stopped) simp
      moreover have "step (ReplyTaken c) (step Stop d1) = step Stop d1" using e by simp
      ultimately show ?thesis by (simp add: run_schedule_append)
    qed
    have ee: "returned (run_schedule
             (replicate (length (interceptCh d1)) Process @ [ReplyTaken c]) d1) =
           returned d @ [(Some c, True, ViaReply)]"
      if pr: "processing d"
    proof -
      have i1: "queue_inv d1" unfolding d1_def using i by (rule queue_inv_step)
      have p1: "processing d1" unfolding d1' using pr by simp
      let ?d' = "run_schedule (replicate (length (interceptCh d1)) Process) d1"
      from process_all [OF i1 p1 refl]
      have r: "\<forall>x\<in>set (interceptCh d1). replies ?d' (ApprovedCh x) = [True]"
        and t': "returned ?d' = returned d1"
        and w': "waiting ?d' = waiting d1"
        by blast+
      have "rec \<in> set (interceptCh d1)" unfolding q by simp
      with r have "replies ?d' (ApprovedCh rec) = [True]" by blast
      then have rc: "replies ?d' c = [True]" unfolding rec_def by simp
      have wc: "c \<in> set (waiting ?d')" unfolding w' by (rule w)
      have "returned (step (ReplyTaken c) ?d') = returned ?d' @ [(Some c, True, ViaReply)]"
        using rc wc by simp
      then show ?thesis unfolding run_schedule_append t' t by simp
    qed
    from q e w t rt tt st ee show ?thesis by blast
  qed
  have p: "processing d \<longrightarrow>
      (\<forall>c0 rest. interceptCh d = c0 # rest \<longrightarrow>
         interceptCh (step Process d) = rest \<and>
         replies (step Process d) (ApprovedCh c0) = [True] \<and>
         dlogged (step Process d) = dlogged d @ [(LevelDebug, ''command intercepted'')] \<and>
         returned (step Process d) = returned d)"
  proof (intro impI allI)
    fix c0 rest
    assume pr: "processing d" and q: "interceptCh d = c0 # rest"
    show "interceptCh (step Process d) = rest \<and>
         replies (step Process d) (ApprovedCh c0) = [True] \<and>
         dlogged (step Process d) = dlogged d @ [(LevelDebug, ''command intercepted'')] \<and>
         returned (step Process d) = returned d"
      unfolding step_Process_head [OF i pr q] by simp
  qed
  have np: "\<not> processing d \<longrightarrow> step Process d = d" by simp
  from a b n s p np
  have "(\<forall>r\<in>set (returned d).
          (\<not> fst (snd r) \<longrightarrow> snd (snd r) = ViaTimeout) \<and>
          (snd (snd r) = ViaReply \<longrightarrow> fst (snd r))) \<and>
       (\<forall>ch. set (replies d ch) \<subseteq> {True}) \<and>
       (\<not> session_set d \<longrightarrow>
          d1 = d\<lparr>returned := returned d @ [(None, True, NoSession)]\<rparr>) \<and>
       (session_set d \<and> length (interceptCh d) < 100 \<longrightarrow>
          interceptCh d1 = interceptCh d @ [rec] \<and>
          replies d1 c = [] \<and>
          c \<in> set (waiting d1) \<and>
          returned d1 = returned d \<and>
          step (ReplyTaken c) d1 = d1 \<and>
          returned (step (TimerTaken c) d1) = returned d @ [(Some c, False, ViaTimeout)] \<and>
          run_schedule (Stop # replicate k Process @ [ReplyTaken c]) d1 = step Stop d1 \<and>
          (processing d \<longrightarrow>
             returned (run_schedule
                 (replicate (length (interceptCh d1)) Process @ [ReplyTaken c]) d1) =
               returned d @ [(Some c, True, ViaReply)])) \<and>
       (processing d \<longrightarrow>
          (\<forall>c0 rest. interceptCh d = c0 # rest \<longrightarrow>
             interceptCh (step Process d) = rest \<and>
             replies (step Process d) (ApprovedCh c0) = [True] \<and>
             dlogged (step Process d) = dlogged d @ [(LevelDebug, ''command intercepted'')] \<and>
             returned (step Process d) = returned d)) \<and>
       (\<not> processing d \<longrightarrow> step Process d = d)"
    by blast
  then show ?thesis unfolding Let_def d_def c_def d1_def rec_def .
qed

theorem daemon_approves_every_dequeued_command_witness:
  "returned (run_schedule example_pending_schedule New) =
     [(Some 0, True, ViaReply), (Some 1, False, ViaTimeout)] \<and>
   session_set (run_schedule example_pending_schedule New) \<and>
   processing (run_schedule example_pending_schedule New) \<and>
   map ApprovedCh (interceptCh (run_schedule example_pending_schedule New)) = [2] \<and>
   next_chan (run_schedule example_pending_schedule New) = 3 \<and>
   \<not> session_set (run_schedule [GoProcess] New) \<and>
   \<not> processing (run_schedule [SetSession] New) \<and>
   replies (step Process (run_schedule example_pending_schedule New)) 2 = [True] \<and>
   interceptCh (step Process (run_schedule example_pending_schedule New)) = [] \<and>
   map ApprovedCh (interceptCh (step (Intercept ''id'' [] example_caller)
      (run_schedule example_pending_schedule New))) = [2, 3] \<and>
   returned (step (TimerTaken 3) (step (Intercept ''id'' [] example_caller)
      (run_schedule example_pending_schedule New))) =
     [(Some 0, True, ViaReply), (Some 1, False, ViaTimeout), (Some 3, False, ViaTimeout)] \<and>
   returned (run_schedule [Intercept ''id'' [] example_caller, Process, Process, ReplyTaken 3]
      (run_schedule example_pending_schedule New)) =
     [(Some 0, True, ViaReply), (Some 1, False, ViaTimeout), (Some 3, True, ViaReply)] \<and>
   returned (run_schedule
      [Intercept ''id'' [] example_caller, Stop, Process, Process, ReplyTaken 3, TimerTaken 3]
      (run_schedule example_pending_schedule New)) =
     [(Some 0, True, ViaReply), (Some 1, False, ViaTimeout), (Some 3, False, ViaTimeout)]"
  using daemon_approves_every_dequeued_command
          [where es = example_pending_schedule and cmd = "''id''" and args = "[]"
             and who = example_caller and k = 2]
        daemon_approves_every_dequeued_command
          [where es = "[GoProcess]" and cmd = "''id''" and args = "[]" and who = example_caller
             and k = 0]
        daemon_approves_every_dequeued_command
          [where es = "[SetSession]" and cmd = "''id''" and args = "[]" and who = example_caller
             and k = 0]
  by (simp add: example_pending_schedule_def example_schedule_def New_def example_caller_def
      Let_def)

end
